theory Spec2Isabelle
  imports Complex_Main
begin

section \<open>Data model (supabase-migration.sql, tables)\<close>

text \<open>
  A UUID is an opaque key; only equality on it is used. A timestamp is a point on a
  discrete clock. A DOUBLE PRECISION column is read as an exact real number.
\<close>

type_synonym uuid = nat
type_synonym timestamp = int

text \<open>
  The status column of \<open>walk_requests\<close> is TEXT. The services write the five literals
  below; the table's CHECK constraint admits four of them.
\<close>

datatype request_status = Waiting | Matched | Expired | Cancelled | Completed

datatype match_status = Pending | Active | MatchCompleted | MatchCancelled

record profile =
  trust_score :: int
  is_banned :: bool

record walk_request =
  wr_id :: uuid
  wr_user_id :: uuid
  wr_start_lat :: real
  wr_start_lng :: real
  wr_dest_lat :: real
  wr_dest_lng :: real
  wr_status :: request_status
  wr_matched_with :: "uuid option"
  wr_created_at :: timestamp
  wr_expires_at :: timestamp

record match_row =
  m_id :: uuid
  m_request_1 :: uuid
  m_request_2 :: uuid
  m_meetup_lat :: real
  m_meetup_lng :: real
  m_status :: match_status
  m_created_at :: timestamp

text \<open>
  The store: \<open>profiles\<close> is keyed by its primary key; \<open>walk_requests\<close> and \<open>matches\<close>
  are kept as row lists in scan order, since the matcher's ORDER BY ... LIMIT 1 picks among
  rows.
\<close>

record db =
  profiles :: "uuid \<rightharpoonup> profile"
  walk_requests :: "walk_request list"
  matches :: "match_row list"

text \<open>CHECK (status IN ('waiting', 'matched', 'expired', 'cancelled')) on walk_requests.\<close>

fun walk_requests_status_check :: "request_status \<Rightarrow> bool" where
  "walk_requests_status_check Waiting = True"
| "walk_requests_status_check Matched = True"
| "walk_requests_status_check Expired = True"
| "walk_requests_status_check Cancelled = True"
| "walk_requests_status_check Completed = False"

section \<open>Geo utility (calculate_distance)\<close>

text \<open>PostgreSQL's \<open>radians\<close> and two-argument arctangent \<open>atan2(y, x)\<close>.\<close>

definition radians :: "real \<Rightarrow> real" where
  "radians d = d * pi / 180"

definition atan2 :: "real \<Rightarrow> real \<Rightarrow> real" where
  "atan2 y x =
     (if 0 < x then arctan (y / x)
      else if x < 0 then (if 0 \<le> y then arctan (y / x) + pi else arctan (y / x) - pi)
      else if 0 < y then pi / 2
      else if y < 0 then - (pi / 2)
      else 0)"

text \<open>The Haversine argument \<open>a\<close> of calculate_distance, and the function itself.\<close>

definition haversine_a :: "real \<Rightarrow> real \<Rightarrow> real \<Rightarrow> real \<Rightarrow> real" where
  "haversine_a lat1 lng1 lat2 lng2 =
     (let dlat = radians (lat2 - lat1);
          dlng = radians (lng2 - lng1)
      in sin (dlat / 2) * sin (dlat / 2)
         + cos (radians lat1) * cos (radians lat2) * sin (dlng / 2) * sin (dlng / 2))"

definition calculate_distance :: "real \<Rightarrow> real \<Rightarrow> real \<Rightarrow> real \<Rightarrow> real" where
  "calculate_distance lat1 lng1 lat2 lng2 =
     (let r = 3959;
          a = haversine_a lat1 lng1 lat2 lng2;
          c = 2 * atan2 (sqrt a) (sqrt (1 - a))
      in r * c)"

section \<open>The matcher (find_walk_buddy)\<close>

text \<open>
  In this section calculate_distance is the exact computation and a call runs alone. The
  section after it adds what the database adds: rounding, a raised square root and an
  aborted call.
\<close>

text \<open>
  Errors the database can raise: a NULL stored into a NOT NULL column, a value refused by
  a CHECK constraint, the square root of a negative number, and a deadlock between two
  transactions. A raised error aborts the call and leaves the store as it was.
\<close>

datatype sql_error =
  Not_null_violation | Check_violation | Sqrt_of_negative | Deadlock_detected

text \<open>SELECT user_id INTO v_user_id FROM walk_requests WHERE id = p_request_id.\<close>

definition select_user_id :: "db \<Rightarrow> uuid \<Rightarrow> uuid option" where
  "select_user_id s p_request_id =
     map_option wr_user_id (find (\<lambda>wr. wr_id wr = p_request_id) (walk_requests s))"

text \<open>
  The WHERE clause of the candidate query, for one row \<open>wr\<close> joined with its owner's
  profile. A comparison with a NULL \<open>v_user_id\<close> is not true, so the row is dropped.
\<close>

definition candidate_where ::
  "db \<Rightarrow> timestamp \<Rightarrow> uuid \<Rightarrow> uuid option \<Rightarrow> real \<Rightarrow> real \<Rightarrow> real \<Rightarrow> real
     \<Rightarrow> walk_request \<Rightarrow> bool" where
  "candidate_where s now p_request_id v_user_id p_start_lat p_start_lng p_dest_lat p_dest_lng wr =
     (case profiles s (wr_user_id wr) of
        None \<Rightarrow> False
      | Some p \<Rightarrow>
          wr_status wr = Waiting
          \<and> wr_id wr \<noteq> p_request_id
          \<and> (case v_user_id of None \<Rightarrow> False | Some u \<Rightarrow> wr_user_id wr \<noteq> u)
          \<and> trust_score p > 50
          \<and> is_banned p = False
          \<and> calculate_distance p_start_lat p_start_lng (wr_start_lat wr) (wr_start_lng wr)
              \<le> 0.3
          \<and> calculate_distance p_dest_lat p_dest_lng (wr_dest_lat wr) (wr_dest_lng wr)
              \<le> 0.2
          \<and> wr_expires_at wr > now)"

text \<open>
  SELECT wr.id, wr.user_id INTO ... WHERE ... ORDER BY calculate_distance(...) LIMIT 1:
  the rows that pass the WHERE clause, sorted by start distance, first row taken.
\<close>

definition select_candidate ::
  "db \<Rightarrow> timestamp \<Rightarrow> uuid \<Rightarrow> uuid option \<Rightarrow> real \<Rightarrow> real \<Rightarrow> real \<Rightarrow> real
     \<Rightarrow> (uuid \<times> uuid) option" where
  "select_candidate s now p_request_id v_user_id p_start_lat p_start_lng p_dest_lat p_dest_lng =
     (case sort_key
             (\<lambda>wr. calculate_distance p_start_lat p_start_lng (wr_start_lat wr) (wr_start_lng wr))
             (filter
                (candidate_where s now p_request_id v_user_id
                   p_start_lat p_start_lng p_dest_lat p_dest_lng)
                (walk_requests s)) of
        [] \<Rightarrow> None
      | wr # _ \<Rightarrow> Some (wr_id wr, wr_user_id wr))"

text \<open>The scalar subqueries (SELECT start_lat / start_lng FROM walk_requests WHERE id = ...).\<close>

definition select_start :: "db \<Rightarrow> uuid \<Rightarrow> (real \<times> real) option" where
  "select_start s request_id =
     map_option (\<lambda>wr. (wr_start_lat wr, wr_start_lng wr))
       (find (\<lambda>wr. wr_id wr = request_id) (walk_requests s))"

text \<open>UPDATE walk_requests SET status = 'matched', matched_with = ... WHERE id = ...\<close>

definition update_matched :: "uuid \<Rightarrow> uuid option \<Rightarrow> walk_request list \<Rightarrow> walk_request list" where
  "update_matched request_id user_id rows =
     map (\<lambda>wr. if wr_id wr = request_id
               then wr\<lparr>wr_status := Matched, wr_matched_with := user_id\<rparr>
               else wr) rows"

text \<open>
  The part of find_walk_buddy after the candidate query: the NULL test, the midpoint, the
  two updates and the insert. \<open>new_match_id\<close> stands for the value of uuid_generate_v4().
  A candidate row that is gone gives a NULL midpoint, which the insert refuses.
\<close>

definition find_walk_buddy_write ::
  "db \<Rightarrow> timestamp \<Rightarrow> uuid \<Rightarrow> uuid \<Rightarrow> uuid option \<Rightarrow> real \<Rightarrow> real
     \<Rightarrow> (uuid \<times> uuid) option \<Rightarrow> sql_error + (db \<times> uuid option)" where
  "find_walk_buddy_write s now new_match_id p_request_id v_user_id p_start_lat p_start_lng cand =
     (case cand of
        None \<Rightarrow> Inr (s, None)
      | Some (v_matched_request_id, v_matched_user_id) \<Rightarrow>
          (case select_start s v_matched_request_id of
             None \<Rightarrow> Inl Not_null_violation
           | Some (c_start_lat, c_start_lng) \<Rightarrow>
               (let v_meetup_lat = (p_start_lat + c_start_lat) / 2;
                    v_meetup_lng = (p_start_lng + c_start_lng) / 2;
                    rows1 = update_matched p_request_id (Some v_matched_user_id) (walk_requests s);
                    rows2 = update_matched v_matched_request_id v_user_id rows1
                in Inr (s\<lparr>walk_requests := rows2,
                          matches := matches s @
                            [\<lparr>m_id = new_match_id,
                              m_request_1 = p_request_id,
                              m_request_2 = v_matched_request_id,
                              m_meetup_lat = v_meetup_lat,
                              m_meetup_lng = v_meetup_lng,
                              m_status = Pending,
                              m_created_at = now\<rparr>]\<rparr>,
                        Some v_matched_request_id))))"

definition find_walk_buddy ::
  "db \<Rightarrow> timestamp \<Rightarrow> uuid \<Rightarrow> uuid \<Rightarrow> real \<Rightarrow> real \<Rightarrow> real \<Rightarrow> real
     \<Rightarrow> sql_error + (db \<times> uuid option)" where
  "find_walk_buddy s now new_match_id p_request_id p_start_lat p_start_lng p_dest_lat p_dest_lng =
     (let v_user_id = select_user_id s p_request_id;
          cand = select_candidate s now p_request_id v_user_id
                   p_start_lat p_start_lng p_dest_lat p_dest_lng
      in find_walk_buddy_write s now new_match_id p_request_id v_user_id
           p_start_lat p_start_lng cand)"

text \<open>
  The arithmetic midpoint of the stored start coordinates of two requests, in the
  specification's words.
\<close>

definition stored_midpoint :: "db \<Rightarrow> uuid \<Rightarrow> uuid \<Rightarrow> (real \<times> real) option" where
  "stored_midpoint s request_1 request_2 =
     (case (select_start s request_1, select_start s request_2) of
        (Some (lat1, lng1), Some (lat2, lng2)) \<Rightarrow> Some ((lat1 + lat2) / 2, (lng1 + lng2) / 2)
      | _ \<Rightarrow> None)"

text \<open>What a match row says: its two references, its meetup point and its status.\<close>

definition match_summary :: "match_row \<Rightarrow> uuid \<times> uuid \<times> (real \<times> real) \<times> match_status" where
  "match_summary m = (m_request_1 m, m_request_2 m, (m_meetup_lat m, m_meetup_lng m), m_status m)"

text \<open>
  Two calls of find_walk_buddy from the same place whose candidate queries both run
  before either call's writes; the writes of the first call come first. Each statement
  acts on the rows as the statements before it left them.
\<close>

definition interleaved_calls ::
  "db \<Rightarrow> timestamp \<Rightarrow> uuid \<Rightarrow> uuid \<Rightarrow> uuid \<Rightarrow> uuid \<Rightarrow> real \<Rightarrow> real \<Rightarrow> real \<Rightarrow> real
     \<Rightarrow> sql_error + (db \<times> uuid option \<times> uuid option)" where
  "interleaved_calls s now new_id_1 request_1 new_id_2 request_2
       p_start_lat p_start_lng p_dest_lat p_dest_lng =
     (let v_user_id_1 = select_user_id s request_1;
          cand_1 = select_candidate s now request_1 v_user_id_1
                     p_start_lat p_start_lng p_dest_lat p_dest_lng;
          v_user_id_2 = select_user_id s request_2;
          cand_2 = select_candidate s now request_2 v_user_id_2
                     p_start_lat p_start_lng p_dest_lat p_dest_lng
      in case find_walk_buddy_write s now new_id_1 request_1 v_user_id_1
                p_start_lat p_start_lng cand_1 of
           Inl e \<Rightarrow> Inl e
         | Inr (s1, res_1) \<Rightarrow>
             (case find_walk_buddy_write s1 now new_id_2 request_2 v_user_id_2
                     p_start_lat p_start_lng cand_2 of
                Inl e \<Rightarrow> Inl e
              | Inr (s2, res_2) \<Rightarrow> Inr (s2, res_1, res_2)))"

text \<open>What a request row says about its pairing: id, status and \<open>matched_with\<close>.\<close>

definition request_summary :: "walk_request \<Rightarrow> uuid \<times> request_status \<times> uuid option" where
  "request_summary wr = (wr_id wr, wr_status wr, wr_matched_with wr)"

section \<open>The matcher as the database runs it\<close>

text \<open>
  The database computes calculate_distance in double precision. The result is rounded,
  and for nearly antipodal points rounding can push \<open>a\<close> above 1, so that the square
  root of \<open>1 - a\<close> raises "cannot take square root of a negative number" and the call is
  aborted. \<open>distance\<close> below stands for calculate_distance as the database computes it, with
  \<open>None\<close> for the raised error; \<open>exact_distance\<close> is the computation without rounding,
  which never raises.
\<close>

type_synonym distance_fn = "real \<Rightarrow> real \<Rightarrow> real \<Rightarrow> real \<Rightarrow> real option"

definition exact_distance :: distance_fn where
  "exact_distance lat1 lng1 lat2 lng2 = Some (calculate_distance lat1 lng1 lat2 lng2)"

text \<open>
  The WHERE clause of the candidate query for one row, the conjuncts taken in the order
  written and each evaluated only when those before it hold: \<open>Inr (Some d)\<close> when the row
  passes, \<open>d\<close> its start distance; \<open>Inr None\<close> when it is dropped; \<open>Inl\<close> when a
  distance computation raises. PostgreSQL is free to evaluate the conjuncts in another
  order, so a raise can also abort the query on a row that an earlier conjunct drops here.
\<close>

definition candidate_where_dp ::
  "distance_fn \<Rightarrow> db \<Rightarrow> timestamp \<Rightarrow> uuid \<Rightarrow> uuid option \<Rightarrow> real \<Rightarrow> real \<Rightarrow> real \<Rightarrow> real
     \<Rightarrow> walk_request \<Rightarrow> sql_error + real option" where
  "candidate_where_dp distance s now p_request_id v_user_id
       p_start_lat p_start_lng p_dest_lat p_dest_lng wr =
     (case profiles s (wr_user_id wr) of
        None \<Rightarrow> Inr None
      | Some p \<Rightarrow>
          if wr_status wr = Waiting
             \<and> wr_id wr \<noteq> p_request_id
             \<and> (case v_user_id of None \<Rightarrow> False | Some u \<Rightarrow> wr_user_id wr \<noteq> u)
             \<and> trust_score p > 50
             \<and> is_banned p = False
          then (case distance p_start_lat p_start_lng (wr_start_lat wr) (wr_start_lng wr) of
                  None \<Rightarrow> Inl Sqrt_of_negative
                | Some d_start \<Rightarrow>
                    if d_start \<le> 0.3
                    then (case distance p_dest_lat p_dest_lng (wr_dest_lat wr) (wr_dest_lng wr) of
                            None \<Rightarrow> Inl Sqrt_of_negative
                          | Some d_dest \<Rightarrow>
                              if d_dest \<le> 0.2 \<and> wr_expires_at wr > now
                              then Inr (Some d_start)
                              else Inr None)
                    else Inr None)
          else Inr None)"

text \<open>The scan of the table: the rows that pass, each with its start distance.\<close>

fun scan_candidates ::
  "(walk_request \<Rightarrow> sql_error + real option) \<Rightarrow> walk_request list
     \<Rightarrow> sql_error + (real \<times> walk_request) list" where
  "scan_candidates w [] = Inr []"
| "scan_candidates w (wr # rows) =
     (case w wr of
        Inl e \<Rightarrow> Inl e
      | Inr verdict \<Rightarrow>
          (case scan_candidates w rows of
             Inl e \<Rightarrow> Inl e
           | Inr found \<Rightarrow>
               Inr (case verdict of None \<Rightarrow> found | Some d_start \<Rightarrow> (d_start, wr) # found)))"

text \<open>ORDER BY the start distance, LIMIT 1.\<close>

definition select_candidate_dp ::
  "distance_fn \<Rightarrow> db \<Rightarrow> timestamp \<Rightarrow> uuid \<Rightarrow> uuid option \<Rightarrow> real \<Rightarrow> real \<Rightarrow> real \<Rightarrow> real
     \<Rightarrow> sql_error + (uuid \<times> uuid) option" where
  "select_candidate_dp distance s now p_request_id v_user_id
       p_start_lat p_start_lng p_dest_lat p_dest_lng =
     (case scan_candidates
             (candidate_where_dp distance s now p_request_id v_user_id
                p_start_lat p_start_lng p_dest_lat p_dest_lng)
             (walk_requests s) of
        Inl e \<Rightarrow> Inl e
      | Inr found \<Rightarrow>
          Inr (case sort_key fst found of
                 [] \<Rightarrow> None
               | (d_start, wr) # _ \<Rightarrow> Some (wr_id wr, wr_user_id wr)))"

definition find_walk_buddy_dp ::
  "distance_fn \<Rightarrow> db \<Rightarrow> timestamp \<Rightarrow> uuid \<Rightarrow> uuid \<Rightarrow> real \<Rightarrow> real \<Rightarrow> real \<Rightarrow> real
     \<Rightarrow> sql_error + (db \<times> uuid option)" where
  "find_walk_buddy_dp distance s now new_match_id p_request_id
       p_start_lat p_start_lng p_dest_lat p_dest_lng =
     (let v_user_id = select_user_id s p_request_id
      in case select_candidate_dp distance s now p_request_id v_user_id
                p_start_lat p_start_lng p_dest_lat p_dest_lng of
           Inl e \<Rightarrow> Inl e
         | Inr cand \<Rightarrow>
             find_walk_buddy_write s now new_match_id p_request_id v_user_id
               p_start_lat p_start_lng cand)"

text \<open>
  The remote call \<open>supabase.rpc('find_walk_buddy', ...)\<close> runs as one transaction. When
  it conflicts with an overlapping call (two calls that update the same two rows in
  opposite order), the database aborts one of them with "deadlock detected"; \<open>abort\<close> is
  that decision of the database. An aborted call changes nothing and reports the error.
\<close>

definition rpc_find_walk_buddy ::
  "distance_fn \<Rightarrow> sql_error option \<Rightarrow> db \<Rightarrow> timestamp \<Rightarrow> uuid \<Rightarrow> uuid
     \<Rightarrow> real \<Rightarrow> real \<Rightarrow> real \<Rightarrow> real \<Rightarrow> sql_error + (db \<times> uuid option)" where
  "rpc_find_walk_buddy distance abort s now new_match_id p_request_id
       p_start_lat p_start_lng p_dest_lat p_dest_lng =
     (case abort of
        Some e \<Rightarrow> Inl e
      | None \<Rightarrow>
          find_walk_buddy_dp distance s now new_match_id p_request_id
            p_start_lat p_start_lng p_dest_lat p_dest_lng)"

text \<open>
  The eligibility conditions in the specification's words, for a requester with request id
  \<open>r_id\<close> owned by \<open>r_user\<close>, the distances measured from the start point
  \<open>(lat, lng)\<close> and the destination \<open>(dest_lat, dest_lng)\<close>.
\<close>

definition eligible_from ::
  "distance_fn \<Rightarrow> db \<Rightarrow> timestamp \<Rightarrow> uuid \<Rightarrow> uuid \<Rightarrow> real \<Rightarrow> real \<Rightarrow> real \<Rightarrow> real
     \<Rightarrow> walk_request \<Rightarrow> bool" where
  "eligible_from distance s now r_id r_user lat lng dest_lat dest_lng c =
     (wr_id c \<noteq> r_id
      \<and> wr_user_id c \<noteq> r_user
      \<and> (case profiles s (wr_user_id c) of
            None \<Rightarrow> False
          | Some p \<Rightarrow> 50 < trust_score p \<and> \<not> is_banned p)
      \<and> (case distance lat lng (wr_start_lat c) (wr_start_lng c) of
            None \<Rightarrow> False
          | Some d_start \<Rightarrow> d_start \<le> 3 / 10)
      \<and> (case distance dest_lat dest_lng (wr_dest_lat c) (wr_dest_lng c) of
            None \<Rightarrow> False
          | Some d_dest \<Rightarrow> d_dest \<le> 2 / 10)
      \<and> now < wr_expires_at c
      \<and> wr_status c = Waiting)"

section \<open>The expiration sweeper (cleanup_expired_requests)\<close>

text \<open>UPDATE walk_requests SET status = 'expired' WHERE status = 'waiting' AND expires_at < NOW().\<close>

definition cleanup_expired_requests :: "db \<Rightarrow> timestamp \<Rightarrow> db" where
  "cleanup_expired_requests s now =
     s\<lparr>walk_requests :=
         map (\<lambda>wr. if wr_status wr = Waiting \<and> wr_expires_at wr < now
                   then wr\<lparr>wr_status := Expired\<rparr>
                   else wr)
           (walk_requests s)\<rparr>"

section \<open>Row-level security (policies of the migration)\<close>

text \<open>
  The services use the client created with the anon key, so every statement they issue
  is filtered by the policies of the migration. \<open>auth\<close> is \<open>auth.uid()\<close> of the
  session: the signed-in user, or NULL. A comparison with NULL is not true.
  find_walk_buddy and cleanup_expired_requests are SECURITY DEFINER and are not filtered.
\<close>

text \<open>
  "Users can view their own walk requests" (\<open>auth.uid() = user_id\<close>) and "Users can
  view matched walk requests" (\<open>auth.uid() = matched_with\<close>).
\<close>

definition walk_requests_select_policy :: "uuid option \<Rightarrow> walk_request \<Rightarrow> bool" where
  "walk_requests_select_policy auth wr =
     (case auth of
        None \<Rightarrow> False
      | Some uid \<Rightarrow> uid = wr_user_id wr \<or> wr_matched_with wr = Some uid)"

text \<open>"Users can update their own walk requests" (\<open>auth.uid() = user_id\<close>).\<close>

definition walk_requests_update_policy :: "uuid option \<Rightarrow> walk_request \<Rightarrow> bool" where
  "walk_requests_update_policy auth wr =
     (case auth of None \<Rightarrow> False | Some uid \<Rightarrow> uid = wr_user_id wr)"

definition select_walk_requests :: "uuid option \<Rightarrow> db \<Rightarrow> walk_request list" where
  "select_walk_requests auth s = filter (walk_requests_select_policy auth) (walk_requests s)"

text \<open>
  "Users can view their own matches": a request of the session's user, among the
  requests the session can read, is one of the two the match references.
\<close>

definition matches_select_policy :: "uuid option \<Rightarrow> db \<Rightarrow> match_row \<Rightarrow> bool" where
  "matches_select_policy auth s m =
     (case auth of
        None \<Rightarrow> False
      | Some uid \<Rightarrow>
          list_ex (\<lambda>wr. (wr_id wr = m_request_1 m \<or> wr_id wr = m_request_2 m)
                        \<and> wr_user_id wr = uid)
            (select_walk_requests auth s))"

definition select_matches :: "uuid option \<Rightarrow> db \<Rightarrow> match_row list" where
  "select_matches auth s = filter (matches_select_policy auth s) (matches s)"

text \<open>
  The migration has no UPDATE policy for \<open>matches\<close>: with row-level security enabled,
  no row passes.
\<close>

definition matches_update_policy :: "uuid option \<Rightarrow> db \<Rightarrow> match_row \<Rightarrow> bool" where
  "matches_update_policy auth s m = False"

section \<open>The services (walkRequest.ts, match.ts)\<close>

text \<open>
  The services talk to the store through the query builder, in a session with user
  \<open>auth\<close>. A thrown Error is a value of \<open>service_error\<close>, named after its message; an
  error leaves the store as it was before the failing statement.
\<close>

datatype service_error =
    Failed_to_find_match sql_error
  | Failed_to_fetch_request
  | Unauthorized
  | Can_only_confirm_matched_requests
  | Failed_to_cancel_request sql_error
  | Failed_to_update_request sql_error
  | Failed_to_fetch_match

text \<open>\<open>.single()\<close>: the one row of the result, an error unless there is exactly one.\<close>

definition single :: "'a list \<Rightarrow> 'a option" where
  "single rows = (case rows of [x] \<Rightarrow> Some x | _ \<Rightarrow> None)"

text \<open>
  \<open>.from('walk_requests').update({ status }).eq('id', requestId)\<close>: every row with that
  id that the session may read and update gets the status; a row the policies exclude is
  skipped without error. The CHECK constraint refuses the statement when a row would get
  a status outside its list.
\<close>

definition update_request_status ::
  "uuid option \<Rightarrow> db \<Rightarrow> uuid \<Rightarrow> request_status \<Rightarrow> sql_error + db" where
  "update_request_status auth s requestId st =
     (if list_ex (\<lambda>wr. wr_id wr = requestId
                       \<and> walk_requests_select_policy auth wr
                       \<and> walk_requests_update_policy auth wr) (walk_requests s)
         \<and> \<not> walk_requests_status_check st
      then Inl Check_violation
      else Inr (s\<lparr>walk_requests :=
                  map (\<lambda>wr. if wr_id wr = requestId
                               \<and> walk_requests_select_policy auth wr
                               \<and> walk_requests_update_policy auth wr
                            then wr\<lparr>wr_status := st\<rparr> else wr)
                    (walk_requests s)\<rparr>))"

text \<open>
  \<open>.from('matches').update({ status }).eq('id', matchId)\<close>: every row with that id that
  the session may read and update gets the status; a row the policies exclude is skipped
  without error. The four statuses of \<open>match_status\<close> are the four the CHECK constraint
  of \<open>matches\<close> lists, so the statement is never refused.
\<close>

definition update_match_status :: "uuid option \<Rightarrow> db \<Rightarrow> uuid \<Rightarrow> match_status \<Rightarrow> db" where
  "update_match_status auth s matchId st =
     s\<lparr>matches :=
         map (\<lambda>m. if m_id m = matchId
                     \<and> matches_select_policy auth s m
                     \<and> matches_update_policy auth s m
                  then m\<lparr>m_status := st\<rparr> else m)
           (matches s)\<rparr>"

text \<open>
  findMatch: one remote call of find_walk_buddy; an error of the call is thrown on,
  otherwise the call's data is returned.
\<close>

definition findMatch ::
  "db \<Rightarrow> timestamp \<Rightarrow> uuid \<Rightarrow> uuid \<Rightarrow> real \<Rightarrow> real \<Rightarrow> real \<Rightarrow> real
     \<Rightarrow> service_error + (db \<times> uuid option)" where
  "findMatch s now new_match_id requestId startLat startLng destLat destLng =
     (case find_walk_buddy s now new_match_id requestId startLat startLng destLat destLng of
        Inl error \<Rightarrow> Inl (Failed_to_find_match error)
      | Inr (s', data) \<Rightarrow> Inr (s', data))"

text \<open>
  findMatch with the remote call as the database runs it: the distance in double
  precision, and the database's decision to abort the call.
\<close>

definition findMatch_rpc ::
  "distance_fn \<Rightarrow> sql_error option \<Rightarrow> db \<Rightarrow> timestamp \<Rightarrow> uuid \<Rightarrow> uuid
     \<Rightarrow> real \<Rightarrow> real \<Rightarrow> real \<Rightarrow> real \<Rightarrow> service_error + (db \<times> uuid option)" where
  "findMatch_rpc distance abort s now new_match_id requestId startLat startLng destLat destLng =
     (case rpc_find_walk_buddy distance abort s now new_match_id requestId
             startLat startLng destLat destLng of
        Inl error \<Rightarrow> Inl (Failed_to_find_match error)
      | Inr (s', data) \<Rightarrow> Inr (s', data))"

text \<open>
  cancelRequest. The test \<open>!request\<close> after a successful \<open>.single()\<close> cannot fire and has
  no branch here.
\<close>

definition cancelRequest :: "uuid option \<Rightarrow> db \<Rightarrow> uuid \<Rightarrow> uuid \<Rightarrow> service_error + db" where
  "cancelRequest auth s requestId userId =
     (case single (filter (\<lambda>wr. wr_id wr = requestId) (select_walk_requests auth s)) of
        None \<Rightarrow> Inl Failed_to_fetch_request
      | Some request \<Rightarrow>
          if wr_user_id request \<noteq> userId then Inl Unauthorized
          else (case update_request_status auth s requestId Cancelled of
                  Inl updateError \<Rightarrow> Inl (Failed_to_cancel_request updateError)
                | Inr s' \<Rightarrow> Inr s'))"

text \<open>
  confirmMeetup: ownership, the status test, the request's update to 'completed', then
  the associated match (if exactly one is found) is set to 'active'.
\<close>

definition confirmMeetup :: "uuid option \<Rightarrow> db \<Rightarrow> uuid \<Rightarrow> uuid \<Rightarrow> service_error + db" where
  "confirmMeetup auth s requestId userId =
     (case single (filter (\<lambda>wr. wr_id wr = requestId) (select_walk_requests auth s)) of
        None \<Rightarrow> Inl Failed_to_fetch_request
      | Some request \<Rightarrow>
          if wr_user_id request \<noteq> userId then Inl Unauthorized
          else if wr_status request \<noteq> Matched then Inl Can_only_confirm_matched_requests
          else (case update_request_status auth s requestId Completed of
                  Inl updateRequestError \<Rightarrow> Inl (Failed_to_update_request updateRequestError)
                | Inr s' \<Rightarrow>
                    (case single (filter (\<lambda>m. m_request_1 m = requestId \<or> m_request_2 m = requestId)
                                    (select_matches auth s')) of
                       None \<Rightarrow> Inr s'
                     | Some match \<Rightarrow> Inr (update_match_status auth s' (m_id match) Active))))"

text \<open>
  completeMatch and cancelMatch: the match is fetched, then the requests whose id is one
  of its two references; the caller must own one of them.
\<close>

definition userOwnsRequest :: "uuid option \<Rightarrow> db \<Rightarrow> match_row \<Rightarrow> uuid \<Rightarrow> bool" where
  "userOwnsRequest auth s match userId =
     list_ex (\<lambda>req. wr_user_id req = userId)
       (filter (\<lambda>wr. wr_id wr = m_request_1 match \<or> wr_id wr = m_request_2 match)
          (select_walk_requests auth s))"

definition completeMatch :: "uuid option \<Rightarrow> db \<Rightarrow> uuid \<Rightarrow> uuid \<Rightarrow> service_error + db" where
  "completeMatch auth s matchId userId =
     (case single (filter (\<lambda>m. m_id m = matchId) (select_matches auth s)) of
        None \<Rightarrow> Inl Failed_to_fetch_match
      | Some match \<Rightarrow>
          if \<not> userOwnsRequest auth s match userId then Inl Unauthorized
          else Inr (update_match_status auth s matchId MatchCompleted))"

definition cancelMatch :: "uuid option \<Rightarrow> db \<Rightarrow> uuid \<Rightarrow> uuid \<Rightarrow> service_error + db" where
  "cancelMatch auth s matchId userId =
     (case single (filter (\<lambda>m. m_id m = matchId) (select_matches auth s)) of
        None \<Rightarrow> Inl Failed_to_fetch_match
      | Some match \<Rightarrow>
          if \<not> userOwnsRequest auth s match userId then Inl Unauthorized
          else Inr (update_match_status auth s matchId MatchCancelled))"

section \<open>Concrete stores\<close>

text \<open>
  A request row at the origin (start and destination both at latitude 0, longitude 0),
  created at time 0 with the ten-minute deadline (600 seconds).
\<close>

definition request_at_origin :: "uuid \<Rightarrow> uuid \<Rightarrow> request_status \<Rightarrow> walk_request" where
  "request_at_origin request_id user_id st =
     \<lparr>wr_id = request_id, wr_user_id = user_id,
      wr_start_lat = 0, wr_start_lng = 0, wr_dest_lat = 0, wr_dest_lng = 0,
      wr_status = st, wr_matched_with = None, wr_created_at = 0, wr_expires_at = 600\<rparr>"

definition trusted :: profile where
  "trusted = \<lparr>trust_score = 80, is_banned = False\<rparr>"

definition borderline :: profile where
  "borderline = \<lparr>trust_score = 50, is_banned = False\<rparr>"

definition banned :: profile where
  "banned = \<lparr>trust_score = 90, is_banned = True\<rparr>"

text \<open>
  Users 1 and 2 are trusted, user 3 has trust score 50, user 4 is banned. Request 10
  belongs to user 1, and requests 20, 30, 40 to users 2, 3, 4; all are waiting at the origin.
\<close>

definition demo_db :: db where
  "demo_db =
     \<lparr>profiles = [1 \<mapsto> trusted, 2 \<mapsto> trusted, 3 \<mapsto> borderline, 4 \<mapsto> banned],
      walk_requests = [request_at_origin 10 1 Waiting, request_at_origin 30 3 Waiting,
                       request_at_origin 40 4 Waiting, request_at_origin 20 2 Waiting],
      matches = []\<rparr>"

text \<open>As \<open>demo_db\<close> with two requests only; request 10 is stored with start (1, 1).\<close>

definition moved_db :: db where
  "moved_db =
     \<lparr>profiles = [1 \<mapsto> trusted, 2 \<mapsto> trusted],
      walk_requests = [(request_at_origin 10 1 Waiting)\<lparr>wr_start_lat := 1, wr_start_lng := 1\<rparr>,
                       request_at_origin 20 2 Waiting],
      matches = []\<rparr>"

text \<open>Request 10 was cancelled by its owner; request 20 is waiting.\<close>

definition cancelled_db :: db where
  "cancelled_db =
     \<lparr>profiles = [1 \<mapsto> trusted, 2 \<mapsto> trusted],
      walk_requests = [request_at_origin 10 1 Cancelled, request_at_origin 20 2 Waiting],
      matches = []\<rparr>"

text \<open>
  Two requesters (requests 10 and 20, owners with trust score 50) and one candidate
  (request 30 of the trusted user 3): for each requester, 30 is the only eligible row.
\<close>

definition race_db :: db where
  "race_db =
     \<lparr>profiles = [1 \<mapsto> borderline, 2 \<mapsto> borderline, 3 \<mapsto> trusted],
      walk_requests = [request_at_origin 10 1 Waiting, request_at_origin 20 2 Waiting,
                       request_at_origin 30 3 Waiting],
      matches = []\<rparr>"

text \<open>Overdue rows in four statuses, and a waiting row whose deadline has not passed.\<close>

definition sweep_db :: db where
  "sweep_db =
     \<lparr>profiles = [1 \<mapsto> trusted, 2 \<mapsto> trusted],
      walk_requests = [request_at_origin 10 1 Waiting, request_at_origin 20 2 Matched,
                       request_at_origin 30 1 Cancelled, request_at_origin 40 2 Expired,
                       (request_at_origin 50 1 Waiting)\<lparr>wr_expires_at := 900\<rparr>],
      matches = []\<rparr>"

text \<open>Requests 10 and 20 are matched with each other in match 100.\<close>

definition matched_rows :: "walk_request list" where
  "matched_rows =
     [(request_at_origin 10 1 Matched)\<lparr>wr_matched_with := Some 2\<rparr>,
      (request_at_origin 20 2 Matched)\<lparr>wr_matched_with := Some 1\<rparr>]"

definition match_100 :: "match_status \<Rightarrow> match_row" where
  "match_100 st =
     \<lparr>m_id = 100, m_request_1 = 10, m_request_2 = 20, m_meetup_lat = 0, m_meetup_lng = 0,
      m_status = st, m_created_at = 0\<rparr>"

definition matched_db :: "match_status \<Rightarrow> db" where
  "matched_db st =
     \<lparr>profiles = [1 \<mapsto> trusted, 2 \<mapsto> trusted],
      walk_requests = matched_rows,
      matches = [match_100 st]\<rparr>"

text \<open>Request 10 of user 1 lapsed and was expired by the sweeper.\<close>

definition expired_db :: db where
  "expired_db =
     \<lparr>profiles = [1 \<mapsto> trusted],
      walk_requests = [request_at_origin 10 1 Expired],
      matches = []\<rparr>"

text \<open>
  Request 10 of user 1 is stored with start at latitude 0, longitude 90, a quarter of
  the way round the equator from request 20 at the origin.
\<close>

definition far_db :: db where
  "far_db =
     \<lparr>profiles = [1 \<mapsto> trusted, 2 \<mapsto> trusted],
      walk_requests = [(request_at_origin 10 1 Waiting)\<lparr>wr_start_lng := 90\<rparr>,
                       request_at_origin 20 2 Waiting],
      matches = []\<rparr>"

text \<open>
  Requests 10 and 20 are matched with each other in match 100; user 3 has the waiting
  request 30 and is no party to the match.
\<close>

definition trio_db :: "match_status \<Rightarrow> db" where
  "trio_db st =
     \<lparr>profiles = [1 \<mapsto> trusted, 2 \<mapsto> trusted, 3 \<mapsto> trusted],
      walk_requests = matched_rows @ [request_at_origin 30 3 Waiting],
      matches = [match_100 st]\<rparr>"

section \<open>Properties of the geo utility\<close>

lemma haversine_a_commute:
  "haversine_a lat1 lng1 lat2 lng2 = haversine_a lat2 lng2 lat1 lng1"
proof -
  have s: "sin (radians (y - x) / 2) * sin (radians (y - x) / 2)
         = sin (radians (x - y) / 2) * sin (radians (x - y) / 2)" for x y :: real
  proof -
    have "radians (y - x) / 2 = - (radians (x - y) / 2)"
      by (simp add: radians_def field_simps)
    then show ?thesis by (simp only: sin_minus)
  qed
  have "haversine_a lat1 lng1 lat2 lng2
      = sin (radians (lat2 - lat1) / 2) * sin (radians (lat2 - lat1) / 2)
        + cos (radians lat1) * cos (radians lat2)
          * (sin (radians (lng2 - lng1) / 2) * sin (radians (lng2 - lng1) / 2))"
    by (simp add: haversine_a_def Let_def algebra_simps)
  also have "\<dots> = sin (radians (lat1 - lat2) / 2) * sin (radians (lat1 - lat2) / 2)
        + cos (radians lat2) * cos (radians lat1)
          * (sin (radians (lng1 - lng2) / 2) * sin (radians (lng1 - lng2) / 2))"
    by (simp only: s [of lat1 lat2] s [of lng1 lng2] mult.commute [of "cos (radians lat1)"])
  also have "\<dots> = haversine_a lat2 lng2 lat1 lng1"
    by (simp add: haversine_a_def Let_def algebra_simps)
  finally show ?thesis .
qed

lemma haversine_a_self: "haversine_a lat lng lat lng = 0"
  by (simp add: haversine_a_def radians_def)

lemma calculate_distance_self: "calculate_distance lat lng lat lng = 0"
  by (simp add: calculate_distance_def haversine_a_self atan2_def)

lemma calculate_distance_commute:
  "calculate_distance lat1 lng1 lat2 lng2 = calculate_distance lat2 lng2 lat1 lng1"
  by (simp add: calculate_distance_def haversine_a_commute [of lat1 lng1 lat2 lng2])

text \<open>
  calculate_distance takes the square roots of \<open>a\<close> and of \<open>1 - a\<close>. Both are
  non-negative for all coordinates, so the square root of a negative number, which
  PostgreSQL refuses, does not occur in exact arithmetic.
\<close>

lemma abs_prod_le_half_squares: "\<bar>x * y\<bar> \<le> (x\<^sup>2 + y\<^sup>2) / 2" for x y :: real
proof -
  have "0 \<le> (\<bar>x\<bar> - \<bar>y\<bar>)\<^sup>2" by simp
  also have "(\<bar>x\<bar> - \<bar>y\<bar>)\<^sup>2 = x\<^sup>2 + y\<^sup>2 - 2 * \<bar>x * y\<bar>"
    by (simp add: power2_diff abs_mult)
  finally show ?thesis by simp
qed

lemma haversine_a_alt:
  "haversine_a lat1 lng1 lat2 lng2
   = (1 - (sin (radians lat1) * sin (radians lat2)
           + cos (radians lat1) * cos (radians lat2) * cos (radians (lng2 - lng1)))) / 2"
proof -
  have sq: "sin (z / 2) * sin (z / 2) = (1 - cos z) / 2" for z :: real
    using cos_double_sin [of "z / 2"] by (simp add: power2_eq_square)
  have d: "radians (lat2 - lat1) = radians lat2 - radians lat1"
    by (simp add: radians_def algebra_simps diff_divide_distrib)
  have "haversine_a lat1 lng1 lat2 lng2
        = (1 - cos (radians lat2 - radians lat1)) / 2
          + cos (radians lat1) * cos (radians lat2) * ((1 - cos (radians (lng2 - lng1))) / 2)"
    by (simp add: haversine_a_def Let_def sq d mult.assoc)
  then show ?thesis
    by (simp add: cos_diff field_simps)
qed

lemma haversine_a_bounds:
  "0 \<le> haversine_a lat1 lng1 lat2 lng2 \<and> haversine_a lat1 lng1 lat2 lng2 \<le> 1"
proof -
  define s1 where "s1 = sin (radians lat1)"
  define s2 where "s2 = sin (radians lat2)"
  define c1 where "c1 = cos (radians lat1)"
  define c2 where "c2 = cos (radians lat2)"
  define k where "k = cos (radians (lng2 - lng1))"
  have k: "\<bar>k\<bar> \<le> 1" by (simp add: k_def)
  have u1: "s1\<^sup>2 + c1\<^sup>2 = 1" by (simp add: s1_def c1_def)
  have u2: "s2\<^sup>2 + c2\<^sup>2 = 1" by (simp add: s2_def c2_def)
  have "\<bar>c1 * c2 * k\<bar> = \<bar>c1 * c2\<bar> * \<bar>k\<bar>" by (simp add: abs_mult)
  also have "\<dots> \<le> \<bar>c1 * c2\<bar> * 1" by (rule mult_left_mono [OF k]) simp
  finally have ck: "\<bar>c1 * c2 * k\<bar> \<le> \<bar>c1 * c2\<bar>" by simp
  have "\<bar>s1 * s2 + c1 * c2 * k\<bar> \<le> \<bar>s1 * s2\<bar> + \<bar>c1 * c2 * k\<bar>" by (rule abs_triangle_ineq)
  also have "\<dots> \<le> (s1\<^sup>2 + s2\<^sup>2) / 2 + (c1\<^sup>2 + c2\<^sup>2) / 2"
    using abs_prod_le_half_squares [of s1 s2] abs_prod_le_half_squares [of c1 c2] ck by linarith
  also have "\<dots> = 1" using u1 u2 by (simp add: field_simps)
  finally have "\<bar>s1 * s2 + c1 * c2 * k\<bar> \<le> 1" .
  then show ?thesis
    by (simp add: haversine_a_alt s1_def s2_def c1_def c2_def k_def abs_le_iff)
qed

text \<open>
  C9. Over exact real arithmetic the great-circle distance is symmetric in its two points,
  and the distance from a point to itself is 0.
\<close>

theorem C9_distance_symmetric_and_zero_on_self:
  "calculate_distance lat1 lng1 lat2 lng2 = calculate_distance lat2 lng2 lat1 lng1
   \<and> calculate_distance lat1 lng1 lat1 lng1 = 0"
proof
  show "calculate_distance lat1 lng1 lat2 lng2 = calculate_distance lat2 lng2 lat1 lng1"
    by (simp add: calculate_distance_def haversine_a_commute [of lat1 lng1 lat2 lng2])
  show "calculate_distance lat1 lng1 lat1 lng1 = 0"
    by (simp add: calculate_distance_def haversine_a_self atan2_def)
qed

section \<open>Evaluation of the concrete stores\<close>

lemmas store_defs = demo_db_def moved_db_def cancelled_db_def race_db_def sweep_db_def
  matched_db_def matched_rows_def match_100_def expired_db_def request_at_origin_def
  trusted_def borderline_def banned_def far_db_def trio_db_def

lemmas matcher_defs = find_walk_buddy_def find_walk_buddy_write_def select_user_id_def
  select_start_def select_candidate_def candidate_where_def update_matched_def

section \<open>Candidate selection\<close>

lemma find_id_in_set:
  "c \<in> set rows \<Longrightarrow> \<exists>r. find (\<lambda>wr. wr_id wr = wr_id c) rows = Some r"
  by (induction rows) auto

lemma sort_key_hd_min:
  assumes h: "sort_key f xs = y # ys"
  shows "y \<in> set xs \<and> (\<forall>x\<in>set xs. f y \<le> f x)"
proof -
  have "set (sort_key f xs) = set xs" by simp
  with h have s: "set xs = insert y (set ys)" by simp
  have "sorted (map f (sort_key f xs))" by simp
  with h have "\<forall>x\<in>set ys. f y \<le> f x" by simp
  with s show ?thesis by auto
qed

lemma sort_key_Nil_iff: "sort_key f xs = [] \<longleftrightarrow> xs = []"
  by (metis length_0_conv length_sort)

section \<open>Candidate selection as the database runs it\<close>

lemma candidate_where_dp_verdict:
  assumes "distance a b (wr_start_lat wr) (wr_start_lng wr) = Some d1"
    and "distance c d (wr_dest_lat wr) (wr_dest_lng wr) = Some d2"
  shows "candidate_where_dp distance s now rid (Some u) a b c d wr
         = Inr (if eligible_from distance s now rid u a b c d wr then Some d1 else None)"
  using assms
  by (auto simp: candidate_where_dp_def eligible_from_def split: option.splits)

lemma scan_candidates_verdicts:
  "(\<And>wr. wr \<in> set rows \<Longrightarrow> w wr = Inr (g wr)) \<Longrightarrow>
   scan_candidates w rows
   = Inr (List.map_filter (\<lambda>wr. map_option (\<lambda>d. (d, wr)) (g wr)) rows)"
proof (induction rows)
  case Nil
  then show ?case by (simp add: map_filter_simps)
next
  case (Cons x rows)
  then show ?case by (cases "g x") (simp_all add: map_filter_simps)
qed

lemma set_map_filter_verdicts:
  "set (List.map_filter (\<lambda>wr. map_option (\<lambda>d. (d, wr)) (g wr)) rows)
   = {(d, wr). wr \<in> set rows \<and> g wr = Some d}"
  by (induction rows) (auto simp: map_filter_simps split: option.splits)

text \<open>
  C1, as the code has it. The requester's request row exists (owner \<open>u\<close>) and the
  distance computation raises on no row of the pool. Then find_walk_buddy returns
  without error; it returns NULL exactly when no row satisfies all the eligibility
  conditions, the distances being measured from the start and destination passed to the
  call; otherwise it returns the id of an eligible row whose computed start distance from
  the passed start is least among the eligible rows.
\<close>

theorem C1_find_walk_buddy_nearest_to_call_coordinates:
  assumes own: "select_user_id s rid = Some u"
    and ok: "\<forall>wr\<in>set (walk_requests s).
               distance a b (wr_start_lat wr) (wr_start_lng wr) \<noteq> None
               \<and> distance c d (wr_dest_lat wr) (wr_dest_lng wr) \<noteq> None"
  shows "\<exists>s' res. find_walk_buddy_dp distance s now nid rid a b c d = Inr (s', res)
     \<and> (res = None \<longleftrightarrow>
          \<not> (\<exists>x\<in>set (walk_requests s). eligible_from distance s now rid u a b c d x))
     \<and> (\<forall>cid. res = Some cid \<longrightarrow>
          (\<exists>x\<in>set (walk_requests s). \<exists>dx.
             wr_id x = cid \<and> eligible_from distance s now rid u a b c d x
             \<and> distance a b (wr_start_lat x) (wr_start_lng x) = Some dx
             \<and> (\<forall>y\<in>set (walk_requests s). \<forall>dy.
                   eligible_from distance s now rid u a b c d y
                   \<and> distance a b (wr_start_lat y) (wr_start_lng y) = Some dy
                   \<longrightarrow> dx \<le> dy)))"
proof -
  define g where "g = (\<lambda>wr. if eligible_from distance s now rid u a b c d wr
                           then distance a b (wr_start_lat wr) (wr_start_lng wr) else None)"
  define found where
    "found = List.map_filter (\<lambda>wr. map_option (\<lambda>d. (d, wr)) (g wr)) (walk_requests s)"
  have verdict: "candidate_where_dp distance s now rid (Some u) a b c d wr = Inr (g wr)"
    if "wr \<in> set (walk_requests s)" for wr
  proof -
    from ok that obtain d1 d2
      where d: "distance a b (wr_start_lat wr) (wr_start_lng wr) = Some d1"
        "distance c d (wr_dest_lat wr) (wr_dest_lng wr) = Some d2"
      by auto
    have "candidate_where_dp distance s now rid (Some u) a b c d wr
         = Inr (if eligible_from distance s now rid u a b c d wr then Some d1 else None)"
      using d by (rule candidate_where_dp_verdict)
    then show ?thesis by (simp add: g_def d(1))
  qed
  have scan: "scan_candidates (candidate_where_dp distance s now rid (Some u) a b c d)
                (walk_requests s) = Inr found"
    unfolding found_def by (rule scan_candidates_verdicts) (rule verdict)
  have setf: "set found = {(dx, x). x \<in> set (walk_requests s) \<and> g x = Some dx}"
    unfolding found_def by (rule set_map_filter_verdicts)
  have g_Some: "g x = Some dx \<longleftrightarrow>
      eligible_from distance s now rid u a b c d x
      \<and> distance a b (wr_start_lat x) (wr_start_lng x) = Some dx" for x dx
    by (simp add: g_def)
  have elig_g: "\<exists>dx. g x = Some dx"
    if "x \<in> set (walk_requests s)" "eligible_from distance s now rid u a b c d x" for x
    using ok that by (auto simp: g_def)
  show ?thesis
  proof (cases "sort_key fst found")
    case Nil
    then have "found = []" by (simp only: sort_key_Nil_iff)
    with setf elig_g
    have none: "\<not> (\<exists>x\<in>set (walk_requests s). eligible_from distance s now rid u a b c d x)"
      by fastforce
    have "find_walk_buddy_dp distance s now nid rid a b c d = Inr (s, None)"
      using Nil
      by (simp add: find_walk_buddy_dp_def select_candidate_dp_def own scan
          find_walk_buddy_write_def)
    with none show ?thesis by simp
  next
    case (Cons p ps)
    obtain dx x where p: "p = (dx, x)" by (cases p)
    from sort_key_hd_min [OF Cons] have pin: "p \<in> set found"
      and pmin: "\<forall>q\<in>set found. fst p \<le> fst q" by blast+
    from pin p setf have xr: "x \<in> set (walk_requests s)" and gx: "g x = Some dx" by auto
    from gx g_Some have xe: "eligible_from distance s now rid u a b c d x"
      and xd: "distance a b (wr_start_lat x) (wr_start_lng x) = Some dx" by auto
    from find_id_in_set [OF xr] obtain r
      where r: "find (\<lambda>wr. wr_id wr = wr_id x) (walk_requests s) = Some r"
      by blast
    have run: "\<exists>s'. find_walk_buddy_dp distance s now nid rid a b c d = Inr (s', Some (wr_id x))"
      using Cons r
      by (simp add: find_walk_buddy_dp_def select_candidate_dp_def own scan p
          find_walk_buddy_write_def select_start_def Let_def)
    have least: "\<forall>y\<in>set (walk_requests s). \<forall>dy.
                   eligible_from distance s now rid u a b c d y
                   \<and> distance a b (wr_start_lat y) (wr_start_lng y) = Some dy
                   \<longrightarrow> dx \<le> dy"
    proof (intro ballI allI impI)
      fix y dy
      assume y: "y \<in> set (walk_requests s)"
        and "eligible_from distance s now rid u a b c d y
             \<and> distance a b (wr_start_lat y) (wr_start_lng y) = Some dy"
      then have "g y = Some dy" by (simp add: g_Some)
      with y setf have "(dy, y) \<in> set found" by simp
      with pmin p show "dx \<le> dy" by fastforce
    qed
    from run obtain s' where
      s': "find_walk_buddy_dp distance s now nid rid a b c d = Inr (s', Some (wr_id x))"
      by blast
    show ?thesis
    proof (intro exI conjI)
      show "find_walk_buddy_dp distance s now nid rid a b c d = Inr (s', Some (wr_id x))"
        by (rule s')
      show "(Some (wr_id x) = None) \<longleftrightarrow>
          \<not> (\<exists>x\<in>set (walk_requests s). eligible_from distance s now rid u a b c d x)"
        using xr xe by auto
      show "\<forall>cid. Some (wr_id x) = Some cid \<longrightarrow>
          (\<exists>x\<in>set (walk_requests s). \<exists>dx.
             wr_id x = cid \<and> eligible_from distance s now rid u a b c d x
             \<and> distance a b (wr_start_lat x) (wr_start_lng x) = Some dx
             \<and> (\<forall>y\<in>set (walk_requests s). \<forall>dy.
                   eligible_from distance s now rid u a b c d y
                   \<and> distance a b (wr_start_lat y) (wr_start_lng y) = Some dy
                   \<longrightarrow> dx \<le> dy))"
        using xr xe xd least by blast
    qed
  qed
qed

lemmas matcher_dp_defs = find_walk_buddy_dp_def select_candidate_dp_def candidate_where_dp_def
  exact_distance_def find_walk_buddy_write_def select_user_id_def select_start_def
  update_matched_def

lemma demo_db_no_raise:
  "\<forall>wr\<in>set (walk_requests demo_db).
     exact_distance 0 0 (wr_start_lat wr) (wr_start_lng wr) \<noteq> None
     \<and> exact_distance 0 0 (wr_dest_lat wr) (wr_dest_lng wr) \<noteq> None"
  by (simp add: exact_distance_def)

theorem C1_witness_demo_db:
  "select_user_id demo_db 10 = Some 1
   \<and> (\<exists>s'. find_walk_buddy_dp exact_distance demo_db 0 99 10 0 0 0 0 = Inr (s', Some 20))
   \<and> (\<exists>x\<in>set (walk_requests demo_db).
         wr_id x = 20 \<and> eligible_from exact_distance demo_db 0 10 1 0 0 0 0 x)"
proof -
  have own: "select_user_id demo_db 10 = Some 1"
    by (simp add: select_user_id_def store_defs)
  have run: "\<exists>s'. find_walk_buddy_dp exact_distance demo_db 0 99 10 0 0 0 0 = Inr (s', Some 20)"
    by (simp add: matcher_dp_defs store_defs calculate_distance_self)
  from C1_find_walk_buddy_nearest_to_call_coordinates
         [of demo_db 10 1 exact_distance 0 0 0 0 0 99, OF own demo_db_no_raise] run
  have "\<exists>x\<in>set (walk_requests demo_db).
          wr_id x = 20 \<and> eligible_from exact_distance demo_db 0 10 1 0 0 0 0 x"
    by fastforce
  with own run show ?thesis by blast
qed

lemma calculate_distance_quarter_equator: "calculate_distance 0 90 0 0 = 3959 * pi / 2"
proof -
  have r0: "radians 0 = 0" by (simp add: radians_def)
  have r: "radians (- 90) = - (pi / 2)" by (simp add: radians_def)
  have a: "haversine_a 0 90 0 0 = 1 / 2"
    by (simp add: haversine_a_alt r0 r)
  have q: "sqrt (1 / 2) / sqrt (1 / 2) = (1::real)" by simp
  have pos: "0 < sqrt (1 / 2 :: real)" by simp
  have "atan2 (sqrt (1 / 2)) (sqrt (1 / 2)) = arctan 1"
    using pos by (simp only: atan2_def if_True q)
  then have t: "atan2 (sqrt (1 / 2)) (sqrt (1 / 2)) = pi / 4"
    by (simp add: arctan_one)
  have "calculate_distance 0 90 0 0 = 3959 * (2 * atan2 (sqrt (1 / 2)) (sqrt (1 - 1 / 2)))"
    by (simp only: calculate_distance_def Let_def a)
  also have "\<dots> = 3959 * (2 * (pi / 4))"
    by (simp add: t)
  finally show ?thesis by simp
qed

text \<open>
  C1 as stated fails. Request 10 is stored with start (0, 90), which is 3959 * pi / 2
  miles from the start of request 20, so request 20 is not an eligible candidate for
  request 10. The matcher is called for request 10 with start (0, 0), as findMatch
  allows, and returns 20: it measures from the coordinates of the call.
\<close>

theorem C1_counterexample_distance_from_call_coordinates:
  "(case find_walk_buddy_dp exact_distance far_db 0 99 10 0 0 0 0 of
      Inl e \<Rightarrow> False
    | Inr (s', res) \<Rightarrow> res = Some 20)
   \<and> select_start far_db 10 = Some (0, 90)
   \<and> select_start far_db 20 = Some (0, 0)
   \<and> exact_distance 0 90 0 0 = Some (3959 * pi / 2)
   \<and> \<not> (\<exists>x\<in>set (walk_requests far_db). eligible_from exact_distance far_db 0 10 1 0 90 0 0 x)"
proof -
  have big: "\<not> 3959 * pi / 2 \<le> (3 / 10 :: real)"
    using pi_ge_two by simp
  have run: "(case find_walk_buddy_dp exact_distance far_db 0 99 10 0 0 0 0 of
      Inl e \<Rightarrow> False
    | Inr (s', res) \<Rightarrow> res = Some 20)"
    by (simp add: matcher_dp_defs store_defs calculate_distance_self)
  have st: "select_start far_db 10 = Some (0, 90)" "select_start far_db 20 = Some (0, 0)"
    by (simp_all add: select_start_def store_defs)
  have d: "exact_distance 0 90 0 0 = Some (3959 * pi / 2)"
    by (simp add: exact_distance_def calculate_distance_quarter_equator)
  have "\<not> (\<exists>x\<in>set (walk_requests far_db). eligible_from exact_distance far_db 0 10 1 0 90 0 0 x)"
    using big
    by (simp add: eligible_from_def store_defs exact_distance_def
        calculate_distance_quarter_equator)
  with run st d show ?thesis by (intro conjI)
qed

section \<open>The two readings of the matcher agree where nothing raises\<close>

lemma insort_key_fst_pair:
  "insort_key fst (f x, x) (map (\<lambda>y. (f y, y)) ys) = map (\<lambda>y. (f y, y)) (insort_key f x ys)"
  by (induction ys) simp_all

lemma sort_key_fst_pair:
  "sort_key fst (map (\<lambda>y. (f y, y)) xs) = map (\<lambda>y. (f y, y)) (sort_key f xs)"
  by (induction xs) (simp_all add: insort_key_fst_pair)

lemma scan_candidates_exact:
  "scan_candidates (candidate_where_dp exact_distance s now rid v a b c d) rows
   = Inr (map (\<lambda>wr. (calculate_distance a b (wr_start_lat wr) (wr_start_lng wr), wr))
            (filter (candidate_where s now rid v a b c d) rows))"
  by (induction rows)
    (auto simp: candidate_where_dp_def candidate_where_def exact_distance_def
      split: option.splits)

lemma find_walk_buddy_dp_exact:
  "find_walk_buddy_dp exact_distance s now nid rid a b c d = find_walk_buddy s now nid rid a b c d"
proof -
  have "select_candidate_dp exact_distance s now rid v a b c d
        = Inr (select_candidate s now rid v a b c d)" for v
    by (simp add: select_candidate_dp_def select_candidate_def scan_candidates_exact
        sort_key_fst_pair split: list.splits)
  then show ?thesis
    by (simp add: find_walk_buddy_dp_def find_walk_buddy_def Let_def)
qed

lemma findMatch_rpc_exact:
  "findMatch_rpc exact_distance None s now nid rid a b c d = findMatch s now nid rid a b c d"
  by (simp add: findMatch_rpc_def rpc_find_walk_buddy_def findMatch_def find_walk_buddy_dp_exact)

section \<open>The writes of the matcher\<close>

lemma select_candidate_Some:
  assumes "select_candidate s now rid v a b c d = Some (cid, cu)"
  shows "\<exists>x\<in>set (walk_requests s). wr_id x = cid \<and> wr_user_id x = cu
           \<and> candidate_where s now rid v a b c d x"
proof -
  let ?f = "\<lambda>wr. calculate_distance a b (wr_start_lat wr) (wr_start_lng wr)"
  let ?cs = "filter (candidate_where s now rid v a b c d) (walk_requests s)"
  from assms obtain x xs where sk: "sort_key ?f ?cs = x # xs"
    and x: "wr_id x = cid" "wr_user_id x = cu"
    by (auto simp: select_candidate_def split: list.splits)
  from sort_key_hd_min [OF sk] have "x \<in> set ?cs" by blast
  with x show ?thesis by auto
qed

lemma candidate_where_status:
  "candidate_where s now rid v a b c d x \<Longrightarrow> wr_status x = Waiting \<and> wr_id x \<noteq> rid"
  by (auto simp: candidate_where_def split: option.splits)

lemma find_distinct_id:
  "distinct (map wr_id rows) \<Longrightarrow> x \<in> set rows
     \<Longrightarrow> find (\<lambda>wr. wr_id wr = wr_id x) rows = Some x"
  by (induction rows) (auto simp: image_iff)

lemma update_matched_twice:
  "k1 \<noteq> k2 \<Longrightarrow>
   update_matched k2 u2 (update_matched k1 u1 rows)
   = map (\<lambda>wr. if wr_id wr = k1 then wr\<lparr>wr_status := Matched, wr_matched_with := u1\<rparr>
               else if wr_id wr = k2 then wr\<lparr>wr_status := Matched, wr_matched_with := u2\<rparr>
               else wr) rows"
  by (induction rows) (auto simp: update_matched_def)

lemma demo_db_run: "\<exists>s'. find_walk_buddy demo_db 0 99 10 0 0 0 0 = Inr (s', Some 20)"
  by (simp add: matcher_defs store_defs calculate_distance_self)

text \<open>
  C2, as the code has it. Request ids are unique (primary key). When find_walk_buddy,
  called for a waiting request \<open>r\<close>, selects a candidate \<open>cr\<close>, the candidate was waiting
  and is another request; afterwards both rows are matched, each with \<open>matched_with\<close> set
  to the other's owner, every other row is as before, and exactly one match row is
  appended: it references the two requests, has status pending, and its meetup point is
  the average of the start coordinates passed to the call and the candidate's stored
  start coordinates.
\<close>

theorem C2_find_walk_buddy_pairs_and_records_match:
  assumes pk: "distinct (map wr_id (walk_requests s))"
    and req: "find (\<lambda>wr. wr_id wr = rid) (walk_requests s) = Some r"
    and waiting: "wr_status r = Waiting"
    and run: "find_walk_buddy s now nid rid a b c d = Inr (s', Some cid)"
  shows "\<exists>cr. find (\<lambda>wr. wr_id wr = cid) (walk_requests s) = Some cr
     \<and> cid \<noteq> rid \<and> wr_status cr = Waiting
     \<and> walk_requests s' =
         map (\<lambda>wr. if wr_id wr = rid
                   then wr\<lparr>wr_status := Matched, wr_matched_with := Some (wr_user_id cr)\<rparr>
                   else if wr_id wr = cid
                   then wr\<lparr>wr_status := Matched, wr_matched_with := Some (wr_user_id r)\<rparr>
                   else wr) (walk_requests s)
     \<and> matches s' = matches s @
         [\<lparr>m_id = nid, m_request_1 = rid, m_request_2 = cid,
           m_meetup_lat = (a + wr_start_lat cr) / 2, m_meetup_lng = (b + wr_start_lng cr) / 2,
           m_status = Pending, m_created_at = now\<rparr>]
     \<and> profiles s' = profiles s"
proof -
  have own: "select_user_id s rid = Some (wr_user_id r)"
    using req by (simp add: select_user_id_def)
  from run obtain cu
    where sel: "select_candidate s now rid (Some (wr_user_id r)) a b c d = Some (cid, cu)"
    by (auto simp: find_walk_buddy_def find_walk_buddy_write_def own Let_def
        split: option.splits prod.splits)
  from select_candidate_Some [OF sel] obtain x where x: "x \<in> set (walk_requests s)"
    "wr_id x = cid" "wr_user_id x = cu"
    "candidate_where s now rid (Some (wr_user_id r)) a b c d x"
    by blast
  from candidate_where_status [OF x(4)] x(2)
  have st: "wr_status x = Waiting" "cid \<noteq> rid" by auto
  from find_distinct_id [OF pk x(1)] x(2)
  have fx: "find (\<lambda>wr. wr_id wr = cid) (walk_requests s) = Some x" by simp
  from run have s': "s' = s\<lparr>walk_requests :=
        update_matched cid (Some (wr_user_id r)) (update_matched rid (Some cu) (walk_requests s)),
      matches := matches s @
         [\<lparr>m_id = nid, m_request_1 = rid, m_request_2 = cid,
           m_meetup_lat = (a + wr_start_lat x) / 2, m_meetup_lng = (b + wr_start_lng x) / 2,
           m_status = Pending, m_created_at = now\<rparr>]\<rparr>"
    by (simp add: find_walk_buddy_def find_walk_buddy_write_def own sel select_start_def fx
        Let_def)
  have rows: "walk_requests s' =
         map (\<lambda>wr. if wr_id wr = rid
                   then wr\<lparr>wr_status := Matched, wr_matched_with := Some (wr_user_id x)\<rparr>
                   else if wr_id wr = cid
                   then wr\<lparr>wr_status := Matched, wr_matched_with := Some (wr_user_id r)\<rparr>
                   else wr) (walk_requests s)"
    using st(2) by (simp add: s' x(3) update_matched_twice [of rid cid])
  show ?thesis
    using fx st rows by (intro exI [of _ x]) (simp add: s')
qed

theorem C2_witness_demo_db:
  "distinct (map wr_id (walk_requests demo_db))
   \<and> find (\<lambda>wr. wr_id wr = 10) (walk_requests demo_db) = Some (request_at_origin 10 1 Waiting)
   \<and> (\<exists>s'. find_walk_buddy demo_db 0 99 10 0 0 0 0 = Inr (s', Some 20)
          \<and> map match_summary (matches s') = [(10, 20, (0, 0), Pending)]
          \<and> map (\<lambda>wr. (wr_id wr, wr_status wr, wr_matched_with wr)) (walk_requests s')
              = [(10, Matched, Some 2), (30, Waiting, None), (40, Waiting, None),
                 (20, Matched, Some 1)])"
proof -
  have pk: "distinct (map wr_id (walk_requests demo_db))"
    by (simp add: store_defs)
  have req: "find (\<lambda>wr. wr_id wr = 10) (walk_requests demo_db)
               = Some (request_at_origin 10 1 Waiting)"
    by (simp add: store_defs)
  have waiting: "wr_status (request_at_origin 10 1 Waiting) = Waiting"
    by (simp add: store_defs)
  obtain s' where run: "find_walk_buddy demo_db 0 99 10 0 0 0 0 = Inr (s', Some 20)"
    using demo_db_run by blast
  from C2_find_walk_buddy_pairs_and_records_match [OF pk req waiting run] obtain cr where
    cr: "find (\<lambda>wr. wr_id wr = 20) (walk_requests demo_db) = Some cr"
    and rows: "walk_requests s' =
         map (\<lambda>wr. if wr_id wr = 10
                   then wr\<lparr>wr_status := Matched, wr_matched_with := Some (wr_user_id cr)\<rparr>
                   else if wr_id wr = 20
                   then wr\<lparr>wr_status := Matched,
                           wr_matched_with := Some (wr_user_id (request_at_origin 10 1 Waiting))\<rparr>
                   else wr) (walk_requests demo_db)"
    and ms: "matches s' = matches demo_db @
         [\<lparr>m_id = 99, m_request_1 = 10, m_request_2 = 20,
           m_meetup_lat = (0 + wr_start_lat cr) / 2, m_meetup_lng = (0 + wr_start_lng cr) / 2,
           m_status = Pending, m_created_at = 0\<rparr>]"
    by blast
  from cr have cr': "cr = request_at_origin 20 2 Waiting" by (simp add: store_defs)
  have m: "map match_summary (matches s') = [(10, 20, (0, 0), Pending)]"
    by (simp add: ms cr' match_summary_def store_defs)
  have w: "map (\<lambda>wr. (wr_id wr, wr_status wr, wr_matched_with wr)) (walk_requests s')
              = [(10, Matched, Some 2), (30, Waiting, None), (40, Waiting, None),
                 (20, Matched, Some 1)]"
    by (simp add: rows cr' store_defs)
  show ?thesis
  proof (intro conjI exI)
    show "distinct (map wr_id (walk_requests demo_db))" by (rule pk)
    show "find (\<lambda>wr. wr_id wr = 10) (walk_requests demo_db)
            = Some (request_at_origin 10 1 Waiting)"
      by (rule req)
    show "find_walk_buddy demo_db 0 99 10 0 0 0 0 = Inr (s', Some 20)" by (rule run)
    show "map match_summary (matches s') = [(10, 20, (0, 0), Pending)]" by (rule m)
    show "map (\<lambda>wr. (wr_id wr, wr_status wr, wr_matched_with wr)) (walk_requests s')
              = [(10, Matched, Some 2), (30, Waiting, None), (40, Waiting, None),
                 (20, Matched, Some 1)]"
      by (rule w)
  qed
qed

text \<open>
  C2 as stated fails: request 10 is stored with start (1, 1) and the matcher is called
  for it with start (0, 0), as findMatch allows. The match row's meetup point is (0, 0),
  not the midpoint (1/2, 1/2) of the two requests' stored start coordinates.
\<close>

theorem C2_counterexample_meetup_not_stored_midpoint:
  "(case find_walk_buddy moved_db 0 99 10 0 0 0 0 of
      Inl e \<Rightarrow> False
    | Inr (s', res) \<Rightarrow>
        res = Some 20 \<and> map match_summary (matches s') = [(10, 20, (0, 0), Pending)])
   \<and> stored_midpoint moved_db 10 20 = Some (1 / 2, 1 / 2)"
  by (simp add: matcher_defs store_defs calculate_distance_self stored_midpoint_def
      match_summary_def)

section \<open>The sweeper\<close>

text \<open>
  C6. The sweeper leaves profiles and matches alone and keeps every request row in place.
  A row changes exactly when it was waiting with its deadline passed, and then only its
  status changes, to expired; a row that is matched, cancelled, completed or expired, or
  whose deadline has not passed, is unchanged. A second run at the same clock reading
  changes nothing, and a run at a later reading gives the store that a single run at the
  later reading gives.
\<close>

theorem C6_sweeper_changes_only_overdue_waiting:
  "profiles (cleanup_expired_requests s now) = profiles s
   \<and> matches (cleanup_expired_requests s now) = matches s
   \<and> length (walk_requests (cleanup_expired_requests s now)) = length (walk_requests s)
   \<and> (\<forall>i<length (walk_requests s).
        (wr_status (walk_requests s ! i) = Waiting \<and> wr_expires_at (walk_requests s ! i) < now
           \<longrightarrow> walk_requests (cleanup_expired_requests s now) ! i
                 = (walk_requests s ! i)\<lparr>wr_status := Expired\<rparr>
               \<and> walk_requests (cleanup_expired_requests s now) ! i \<noteq> walk_requests s ! i)
        \<and> (wr_status (walk_requests s ! i) \<noteq> Waiting
             \<or> now \<le> wr_expires_at (walk_requests s ! i)
           \<longrightarrow> walk_requests (cleanup_expired_requests s now) ! i = walk_requests s ! i))
   \<and> cleanup_expired_requests (cleanup_expired_requests s now) now
       = cleanup_expired_requests s now
   \<and> (now \<le> later \<longrightarrow>
        cleanup_expired_requests (cleanup_expired_requests s now) later
        = cleanup_expired_requests s later)"
proof (intro conjI allI impI)
  show "profiles (cleanup_expired_requests s now) = profiles s"
    by (simp add: cleanup_expired_requests_def)
  show "matches (cleanup_expired_requests s now) = matches s"
    by (simp add: cleanup_expired_requests_def)
  show "length (walk_requests (cleanup_expired_requests s now)) = length (walk_requests s)"
    by (simp add: cleanup_expired_requests_def)
  show "cleanup_expired_requests (cleanup_expired_requests s now) now
       = cleanup_expired_requests s now"
    by (simp add: cleanup_expired_requests_def o_def)
next
  assume le: "now \<le> later"
  have twice: "map (\<lambda>wr. if wr_status wr = Waiting \<and> wr_expires_at wr < later
                  then wr\<lparr>wr_status := Expired\<rparr> else wr)
          (map (\<lambda>wr. if wr_status wr = Waiting \<and> wr_expires_at wr < now
                     then wr\<lparr>wr_status := Expired\<rparr> else wr) rows)
        = map (\<lambda>wr. if wr_status wr = Waiting \<and> wr_expires_at wr < later
                    then wr\<lparr>wr_status := Expired\<rparr> else wr) rows" for rows
    using le by (induction rows) auto
  show "cleanup_expired_requests (cleanup_expired_requests s now) later
        = cleanup_expired_requests s later"
    by (simp add: cleanup_expired_requests_def twice del: map_map)
next
  fix i
  assume i: "i < length (walk_requests s)"
    and due: "wr_status (walk_requests s ! i) = Waiting
              \<and> wr_expires_at (walk_requests s ! i) < now"
  have upd: "walk_requests (cleanup_expired_requests s now) ! i
          = (walk_requests s ! i)\<lparr>wr_status := Expired\<rparr>"
    using i due by (simp add: cleanup_expired_requests_def)
  then show "walk_requests (cleanup_expired_requests s now) ! i
          = (walk_requests s ! i)\<lparr>wr_status := Expired\<rparr>" .
  have "wr_status ((walk_requests s ! i)\<lparr>wr_status := Expired\<rparr>)
          \<noteq> wr_status (walk_requests s ! i)"
    using due by simp
  then have "(walk_requests s ! i)\<lparr>wr_status := Expired\<rparr> \<noteq> walk_requests s ! i"
    by (rule contrapos_nn) (erule arg_cong)
  with upd show "walk_requests (cleanup_expired_requests s now) ! i \<noteq> walk_requests s ! i"
    by simp
next
  fix i
  assume i: "i < length (walk_requests s)"
    and keep: "wr_status (walk_requests s ! i) \<noteq> Waiting
               \<or> now \<le> wr_expires_at (walk_requests s ! i)"
  show "walk_requests (cleanup_expired_requests s now) ! i = walk_requests s ! i"
    using i keep by (auto simp: cleanup_expired_requests_def)
qed

theorem C6_witness_sweep_db:
  "map (\<lambda>wr. (wr_id wr, wr_status wr, wr_expires_at wr)) (walk_requests sweep_db)
     = [(10, Waiting, 600), (20, Matched, 600), (30, Cancelled, 600), (40, Expired, 600),
        (50, Waiting, 900)]
   \<and> walk_requests (cleanup_expired_requests sweep_db 700) ! 0
       = (walk_requests sweep_db ! 0)\<lparr>wr_status := Expired\<rparr>
   \<and> walk_requests (cleanup_expired_requests sweep_db 700) ! 1 = walk_requests sweep_db ! 1
   \<and> walk_requests (cleanup_expired_requests sweep_db 700) ! 4 = walk_requests sweep_db ! 4
   \<and> cleanup_expired_requests (cleanup_expired_requests sweep_db 700) 700
       = cleanup_expired_requests sweep_db 700
   \<and> cleanup_expired_requests (cleanup_expired_requests sweep_db 700) 1200
       = cleanup_expired_requests sweep_db 1200"
proof -
  note sweep = C6_sweeper_changes_only_overdue_waiting [of sweep_db 700 1200]
  have rows: "map (\<lambda>wr. (wr_id wr, wr_status wr, wr_expires_at wr)) (walk_requests sweep_db)
     = [(10, Waiting, 600), (20, Matched, 600), (30, Cancelled, 600), (40, Expired, 600),
        (50, Waiting, 900)]"
    by (simp add: store_defs)
  have len: "length (walk_requests sweep_db) = 5"
    by (simp add: store_defs)
  have r0: "wr_status (walk_requests sweep_db ! 0) = Waiting
            \<and> wr_expires_at (walk_requests sweep_db ! 0) < 700"
    by (simp add: store_defs)
  have r1: "wr_status (walk_requests sweep_db ! 1) \<noteq> Waiting"
    by (simp add: store_defs)
  have r4: "700 \<le> wr_expires_at (walk_requests sweep_db ! 4)"
    by (simp add: store_defs)
  from sweep len have each: "\<And>i. i < 5 \<Longrightarrow>
        (wr_status (walk_requests sweep_db ! i) = Waiting
           \<and> wr_expires_at (walk_requests sweep_db ! i) < 700
           \<longrightarrow> walk_requests (cleanup_expired_requests sweep_db 700) ! i
                 = (walk_requests sweep_db ! i)\<lparr>wr_status := Expired\<rparr>)
        \<and> (wr_status (walk_requests sweep_db ! i) \<noteq> Waiting
             \<or> 700 \<le> wr_expires_at (walk_requests sweep_db ! i)
           \<longrightarrow> walk_requests (cleanup_expired_requests sweep_db 700) ! i
                 = walk_requests sweep_db ! i)"
    by simp
  from each [of 0] r0 have c0: "walk_requests (cleanup_expired_requests sweep_db 700) ! 0
       = (walk_requests sweep_db ! 0)\<lparr>wr_status := Expired\<rparr>"
    by simp
  from each [of 1] r1
  have c1: "walk_requests (cleanup_expired_requests sweep_db 700) ! 1 = walk_requests sweep_db ! 1"
    by simp
  from each [of 4] r4
  have c4: "walk_requests (cleanup_expired_requests sweep_db 700) ! 4 = walk_requests sweep_db ! 4"
    by simp
  from sweep have idem: "cleanup_expired_requests (cleanup_expired_requests sweep_db 700) 700
       = cleanup_expired_requests sweep_db 700"
    by simp
  from sweep have later: "cleanup_expired_requests (cleanup_expired_requests sweep_db 700) 1200
       = cleanup_expired_requests sweep_db 1200"
    by simp
  from rows c0 c1 c4 idem later show ?thesis by (intro conjI)
qed

section \<open>The request services\<close>

lemma single_filter_row:
  assumes h: "filter P rows = [r]"
  shows "single (filter P rows) = Some r \<and> P r \<and> r \<in> set rows"
proof -
  have "r \<in> set (filter P rows)" by (simp add: h)
  then have "P r \<and> r \<in> set rows" by simp
  then show ?thesis by (simp add: h single_def)
qed

lemma filter_visible_row:
  assumes h: "filter P rows = [r]"
  shows "filter P (filter V rows) = (if V r then [r] else [])"
proof -
  have "filter P (filter V rows) = filter V (filter P rows)"
    by (simp add: conj_commute)
  then show ?thesis by (simp add: h)
qed

lemma filter_visible_none:
  "filter P rows = [] \<Longrightarrow> filter P (filter V rows) = []"
  by (auto simp: filter_empty_conv)

lemma only_row_with_id:
  assumes h: "filter P rows = [r]" and x: "x \<in> set rows" and p: "P x"
  shows "x = r"
proof -
  from x p have "x \<in> set (filter P rows)" by simp
  then show ?thesis by (simp add: h)
qed

lemma owner_policies:
  "walk_requests_select_policy (Some (wr_user_id r)) r"
  "walk_requests_update_policy (Some (wr_user_id r)) r"
  by (simp_all add: walk_requests_select_policy_def walk_requests_update_policy_def)

lemma update_own_row:
  assumes row: "filter (\<lambda>wr. wr_id wr = rid) rows = [r]"
  shows "map (\<lambda>wr. if wr_id wr = rid
                     \<and> walk_requests_select_policy (Some (wr_user_id r)) wr
                     \<and> walk_requests_update_policy (Some (wr_user_id r)) wr
                  then wr\<lparr>wr_status := st\<rparr> else wr) rows
         = map (\<lambda>wr. if wr_id wr = rid then wr\<lparr>wr_status := st\<rparr> else wr) rows"
proof (rule map_cong [OF refl])
  fix x
  assume x: "x \<in> set rows"
  show "(if wr_id x = rid
            \<and> walk_requests_select_policy (Some (wr_user_id r)) x
            \<and> walk_requests_update_policy (Some (wr_user_id r)) x
         then x\<lparr>wr_status := st\<rparr> else x)
        = (if wr_id x = rid then x\<lparr>wr_status := st\<rparr> else x)"
  proof (cases "wr_id x = rid")
    case True
    with only_row_with_id [OF row x] have "x = r" by simp
    then show ?thesis by (simp add: owner_policies)
  next
    case False
    then show ?thesis by simp
  qed
qed

text \<open>
  C7, as the code has it, for a call in the session of \<open>uid\<close>. When no row has the
  request id, cancelRequest fails with "Failed to fetch request". When exactly one row
  \<open>r\<close> has it: for the owner the call succeeds and sets the status of that row to
  cancelled whatever the status was, changing nothing else; it fails with Unauthorized
  exactly when \<open>uid\<close> is not the owner but is the user the request is matched with (the
  only other user whom the policies let read the row); for anyone else the row is hidden
  and the call fails with "Failed to fetch request".
\<close>

theorem C7_cancelRequest_owner_cancels_from_any_status:
  "(filter (\<lambda>wr. wr_id wr = rid) (walk_requests s) = [] \<longrightarrow>
      cancelRequest (Some uid) s rid uid = Inl Failed_to_fetch_request)
   \<and> (filter (\<lambda>wr. wr_id wr = rid) (walk_requests s) = [r] \<longrightarrow>
        (wr_user_id r = uid \<longrightarrow>
           cancelRequest (Some uid) s rid uid
           = Inr (s\<lparr>walk_requests :=
                     map (\<lambda>wr. if wr_id wr = rid then wr\<lparr>wr_status := Cancelled\<rparr> else wr)
                       (walk_requests s)\<rparr>))
        \<and> (cancelRequest (Some uid) s rid uid = Inl Unauthorized \<longleftrightarrow>
             wr_user_id r \<noteq> uid \<and> wr_matched_with r = Some uid)
        \<and> (wr_user_id r \<noteq> uid \<and> wr_matched_with r \<noteq> Some uid \<longrightarrow>
             cancelRequest (Some uid) s rid uid = Inl Failed_to_fetch_request))"
proof (intro conjI impI)
  assume "filter (\<lambda>wr. wr_id wr = rid) (walk_requests s) = []"
  then have "filter (\<lambda>wr. wr_id wr = rid) (select_walk_requests (Some uid) s) = []"
    unfolding select_walk_requests_def by (rule filter_visible_none)
  then show "cancelRequest (Some uid) s rid uid = Inl Failed_to_fetch_request"
    by (simp add: cancelRequest_def single_def)
next
  assume row: "filter (\<lambda>wr. wr_id wr = rid) (walk_requests s) = [r]"
    and own: "wr_user_id r = uid"
  have vis: "filter (\<lambda>wr. wr_id wr = rid) (select_walk_requests (Some uid) s) = [r]"
    using filter_visible_row [OF row, of "walk_requests_select_policy (Some uid)"] own
    by (simp add: select_walk_requests_def walk_requests_select_policy_def)
  have upd: "update_request_status (Some uid) s rid Cancelled
        = Inr (s\<lparr>walk_requests :=
                 map (\<lambda>wr. if wr_id wr = rid then wr\<lparr>wr_status := Cancelled\<rparr> else wr)
                   (walk_requests s)\<rparr>)"
    using update_own_row [OF row, of Cancelled] own
    by (simp add: update_request_status_def)
  show "cancelRequest (Some uid) s rid uid
           = Inr (s\<lparr>walk_requests :=
                     map (\<lambda>wr. if wr_id wr = rid then wr\<lparr>wr_status := Cancelled\<rparr> else wr)
                       (walk_requests s)\<rparr>)"
    using own by (simp add: cancelRequest_def vis single_def upd)
next
  assume row: "filter (\<lambda>wr. wr_id wr = rid) (walk_requests s) = [r]"
  have vis: "filter (\<lambda>wr. wr_id wr = rid) (select_walk_requests (Some uid) s)
             = (if uid = wr_user_id r \<or> wr_matched_with r = Some uid then [r] else [])"
    using filter_visible_row [OF row, of "walk_requests_select_policy (Some uid)"]
    by (simp add: select_walk_requests_def walk_requests_select_policy_def)
  show "cancelRequest (Some uid) s rid uid = Inl Unauthorized \<longleftrightarrow>
             wr_user_id r \<noteq> uid \<and> wr_matched_with r = Some uid"
  proof (cases "wr_user_id r = uid")
    case True
    have "\<exists>x. update_request_status (Some uid) s rid Cancelled = Inr x"
      by (simp add: update_request_status_def)
    with True show ?thesis
      by (auto simp: cancelRequest_def vis single_def)
  next
    case False
    then show ?thesis
      by (auto simp: cancelRequest_def vis single_def)
  qed
next
  assume row: "filter (\<lambda>wr. wr_id wr = rid) (walk_requests s) = [r]"
    and other: "wr_user_id r \<noteq> uid \<and> wr_matched_with r \<noteq> Some uid"
  have "filter (\<lambda>wr. wr_id wr = rid) (select_walk_requests (Some uid) s) = []"
    using filter_visible_row [OF row, of "walk_requests_select_policy (Some uid)"] other
    by (auto simp: select_walk_requests_def walk_requests_select_policy_def)
  then show "cancelRequest (Some uid) s rid uid = Inl Failed_to_fetch_request"
    by (simp add: cancelRequest_def single_def)
qed

lemmas policy_defs = select_walk_requests_def walk_requests_select_policy_def
  walk_requests_update_policy_def select_matches_def matches_select_policy_def
  matches_update_policy_def

theorem C7_witness_trio_db:
  "filter (\<lambda>wr. wr_id wr = 77) (walk_requests (trio_db Pending)) = []
   \<and> cancelRequest (Some 1) (trio_db Pending) 77 1 = Inl Failed_to_fetch_request
   \<and> filter (\<lambda>wr. wr_id wr = 10) (walk_requests (trio_db Pending))
       = [(request_at_origin 10 1 Matched)\<lparr>wr_matched_with := Some 2\<rparr>]
   \<and> cancelRequest (Some 2) (trio_db Pending) 10 2 = Inl Unauthorized
   \<and> cancelRequest (Some 3) (trio_db Pending) 10 3 = Inl Failed_to_fetch_request
   \<and> cancelRequest (Some 1) (trio_db Pending) 10 1
       = Inr ((trio_db Pending)\<lparr>walk_requests :=
                [(request_at_origin 10 1 Cancelled)\<lparr>wr_matched_with := Some 2\<rparr>,
                 (request_at_origin 20 2 Matched)\<lparr>wr_matched_with := Some 1\<rparr>,
                 request_at_origin 30 3 Waiting]\<rparr>)"
proof -
  note c = C7_cancelRequest_owner_cancels_from_any_status
  have none: "filter (\<lambda>wr. wr_id wr = 77) (walk_requests (trio_db Pending)) = []"
    by (simp add: store_defs)
  have row: "filter (\<lambda>wr. wr_id wr = 10) (walk_requests (trio_db Pending))
       = [(request_at_origin 10 1 Matched)\<lparr>wr_matched_with := Some 2\<rparr>]"
    by (simp add: store_defs)
  have owner: "wr_user_id ((request_at_origin 10 1 Matched)\<lparr>wr_matched_with := Some 2\<rparr>) = 1"
    and partner: "wr_matched_with ((request_at_origin 10 1 Matched)\<lparr>wr_matched_with := Some 2\<rparr>)
                  = Some 2"
    by (simp_all add: store_defs)
  from c [of 77 "trio_db Pending" 1] none
  have a: "cancelRequest (Some 1) (trio_db Pending) 77 1 = Inl Failed_to_fetch_request"
    by blast
  from c [of 10 "trio_db Pending" 2, THEN conjunct2, rule_format, OF row] owner partner
  have b: "cancelRequest (Some 2) (trio_db Pending) 10 2 = Inl Unauthorized"
    by simp
  from c [of 10 "trio_db Pending" 3, THEN conjunct2, rule_format, OF row] owner partner
  have d: "cancelRequest (Some 3) (trio_db Pending) 10 3 = Inl Failed_to_fetch_request"
    by simp
  from c [of 10 "trio_db Pending" 1, THEN conjunct2, rule_format, OF row] owner
  have "cancelRequest (Some 1) (trio_db Pending) 10 1
       = Inr ((trio_db Pending)\<lparr>walk_requests :=
                map (\<lambda>wr. if wr_id wr = 10 then wr\<lparr>wr_status := Cancelled\<rparr> else wr)
                  (walk_requests (trio_db Pending))\<rparr>)"
    by simp
  then have e: "cancelRequest (Some 1) (trio_db Pending) 10 1
       = Inr ((trio_db Pending)\<lparr>walk_requests :=
                [(request_at_origin 10 1 Cancelled)\<lparr>wr_matched_with := Some 2\<rparr>,
                 (request_at_origin 20 2 Matched)\<lparr>wr_matched_with := Some 1\<rparr>,
                 request_at_origin 30 3 Waiting]\<rparr>)"
    by (simp add: store_defs)
  from none a row b d e show ?thesis by (intro conjI)
qed

text \<open>
  C7 as stated fails: request 10 has expired, a terminal state, and its owner's
  cancelRequest moves it to cancelled.
\<close>

theorem C7_counterexample_expired_request_cancelled:
  "map wr_status (walk_requests expired_db) = [Expired]
   \<and> cancelRequest (Some 1) expired_db 10 1
       = Inr (expired_db\<lparr>walk_requests := [request_at_origin 10 1 Cancelled]\<rparr>)"
  by (simp add: cancelRequest_def single_def update_request_status_def policy_defs store_defs)

text \<open>
  C8. For a request id that names exactly one row, owned by the caller, and a call in the
  caller's session: when the row's status is not matched, confirmMeetup fails with the invalid-state error; when it is
  matched, the update to 'completed' is refused by the CHECK constraint on
  \<open>walk_requests.status\<close> and confirmMeetup fails with "Failed to update request". In
  neither case is there a new store: the request is never completed.
\<close>

theorem C8_confirmMeetup_completed_refused_by_check:
  assumes row: "filter (\<lambda>wr. wr_id wr = rid) (walk_requests s) = [r]"
    and own: "wr_user_id r = uid"
  shows "(wr_status r \<noteq> Matched \<longrightarrow>
            confirmMeetup (Some uid) s rid uid = Inl Can_only_confirm_matched_requests)
     \<and> (wr_status r = Matched \<longrightarrow>
            confirmMeetup (Some uid) s rid uid = Inl (Failed_to_update_request Check_violation))"
proof -
  have vis: "filter (\<lambda>wr. wr_id wr = rid) (select_walk_requests (Some uid) s) = [r]"
    using filter_visible_row [OF row, of "walk_requests_select_policy (Some uid)"] own
    by (simp add: select_walk_requests_def walk_requests_select_policy_def)
  from single_filter_row [OF row] have rin: "r \<in> set (walk_requests s)" "wr_id r = rid"
    by simp_all
  have "list_ex (\<lambda>wr. wr_id wr = rid
                       \<and> walk_requests_select_policy (Some uid) wr
                       \<and> walk_requests_update_policy (Some uid) wr) (walk_requests s)"
    unfolding list_ex_iff using rin own owner_policies [of r] by blast
  then have upd: "update_request_status (Some uid) s rid Completed = Inl Check_violation"
    by (simp add: update_request_status_def)
  show ?thesis
    using own by (simp add: confirmMeetup_def vis single_def upd)
qed

theorem C8_witness_matched_db:
  "filter (\<lambda>wr. wr_id wr = 10) (walk_requests (matched_db Pending))
     = [(request_at_origin 10 1 Matched)\<lparr>wr_matched_with := Some 2\<rparr>]
   \<and> confirmMeetup (Some 1) (matched_db Pending) 10 1
       = Inl (Failed_to_update_request Check_violation)"
proof -
  have row: "filter (\<lambda>wr. wr_id wr = 10) (walk_requests (matched_db Pending))
     = [(request_at_origin 10 1 Matched)\<lparr>wr_matched_with := Some 2\<rparr>]"
    by (simp add: store_defs)
  have own: "wr_user_id ((request_at_origin 10 1 Matched)\<lparr>wr_matched_with := Some 2\<rparr>) = 1"
    by (simp add: store_defs)
  have st: "wr_status ((request_at_origin 10 1 Matched)\<lparr>wr_matched_with := Some 2\<rparr>) = Matched"
    by (simp add: store_defs)
  from C8_confirmMeetup_completed_refused_by_check [OF row own] st
  have "confirmMeetup (Some 1) (matched_db Pending) 10 1
          = Inl (Failed_to_update_request Check_violation)"
    by simp
  with row show ?thesis by (intro conjI)
qed

section \<open>The match services\<close>

lemma own_request_visible:
  "list_ex (\<lambda>wr. (wr_id wr = k1 \<or> wr_id wr = k2) \<and> wr_user_id wr = uid)
     (select_walk_requests (Some uid) s)
   \<longleftrightarrow> (\<exists>wr\<in>set (walk_requests s). (wr_id wr = k1 \<or> wr_id wr = k2) \<and> wr_user_id wr = uid)"
  by (auto simp: list_ex_iff select_walk_requests_def walk_requests_select_policy_def)

lemma matches_select_policy_party:
  "matches_select_policy (Some uid) s m \<longleftrightarrow>
     (\<exists>wr\<in>set (walk_requests s).
        (wr_id wr = m_request_1 m \<or> wr_id wr = m_request_2 m) \<and> wr_user_id wr = uid)"
  by (simp add: matches_select_policy_def own_request_visible)

lemma userOwnsRequest_party:
  "userOwnsRequest (Some uid) s m uid \<longleftrightarrow>
     (\<exists>wr\<in>set (walk_requests s).
        (wr_id wr = m_request_1 m \<or> wr_id wr = m_request_2 m) \<and> wr_user_id wr = uid)"
  by (auto simp: userOwnsRequest_def list_ex_iff select_walk_requests_def
      walk_requests_select_policy_def)

text \<open>
  C10, as the code has it, for a call in the session of \<open>uid\<close> and a match id that
  names exactly one row \<open>m\<close>. When \<open>uid\<close> owns neither request that \<open>m\<close> references,
  the policies hide the match and completeMatch and cancelMatch fail with "Failed to
  fetch match". When \<open>uid\<close> owns one of them, both calls return without error, whatever
  the status of the match is, and leave requests and profiles as they were. In neither
  case is Unauthorized thrown.
\<close>

theorem C10_match_services_in_callers_session:
  assumes row: "filter (\<lambda>x. m_id x = mid) (matches s) = [m]"
  shows "(\<not> (\<exists>wr\<in>set (walk_requests s).
               (wr_id wr = m_request_1 m \<or> wr_id wr = m_request_2 m) \<and> wr_user_id wr = uid)
          \<longrightarrow> completeMatch (Some uid) s mid uid = Inl Failed_to_fetch_match
              \<and> cancelMatch (Some uid) s mid uid = Inl Failed_to_fetch_match)
     \<and> ((\<exists>wr\<in>set (walk_requests s).
             (wr_id wr = m_request_1 m \<or> wr_id wr = m_request_2 m) \<and> wr_user_id wr = uid)
          \<longrightarrow> (\<exists>s'. completeMatch (Some uid) s mid uid = Inr s'
                     \<and> walk_requests s' = walk_requests s \<and> profiles s' = profiles s)
              \<and> (\<exists>s'. cancelMatch (Some uid) s mid uid = Inr s'
                     \<and> walk_requests s' = walk_requests s \<and> profiles s' = profiles s))
     \<and> completeMatch (Some uid) s mid uid \<noteq> Inl Unauthorized
     \<and> cancelMatch (Some uid) s mid uid \<noteq> Inl Unauthorized"
proof (cases "\<exists>wr\<in>set (walk_requests s).
               (wr_id wr = m_request_1 m \<or> wr_id wr = m_request_2 m) \<and> wr_user_id wr = uid")
  case True
  then have pol: "matches_select_policy (Some uid) s m"
    and owns: "userOwnsRequest (Some uid) s m uid"
    by (simp_all add: matches_select_policy_party userOwnsRequest_party)
  have vis: "filter (\<lambda>x. m_id x = mid) (select_matches (Some uid) s) = [m]"
    using filter_visible_row [OF row, of "matches_select_policy (Some uid) s"] pol
    by (simp add: select_matches_def)
  have c: "completeMatch (Some uid) s mid uid
             = Inr (update_match_status (Some uid) s mid MatchCompleted)"
    and d: "cancelMatch (Some uid) s mid uid
             = Inr (update_match_status (Some uid) s mid MatchCancelled)"
    using owns by (simp_all add: completeMatch_def cancelMatch_def vis single_def)
  have frame: "walk_requests (update_match_status (Some uid) s mid st) = walk_requests s
               \<and> profiles (update_match_status (Some uid) s mid st) = profiles s" for st
    by (simp add: update_match_status_def)
  from True c d frame show ?thesis by simp
next
  case False
  then have pol: "\<not> matches_select_policy (Some uid) s m"
    by (simp add: matches_select_policy_party)
  have vis: "filter (\<lambda>x. m_id x = mid) (select_matches (Some uid) s) = []"
    using filter_visible_row [OF row, of "matches_select_policy (Some uid) s"] pol
    by (simp add: select_matches_def)
  have "completeMatch (Some uid) s mid uid = Inl Failed_to_fetch_match"
    and "cancelMatch (Some uid) s mid uid = Inl Failed_to_fetch_match"
    by (simp_all add: completeMatch_def cancelMatch_def vis single_def)
  with False show ?thesis by simp
qed

theorem C10_witness_trio_db:
  "filter (\<lambda>x. m_id x = 100) (matches (trio_db MatchCancelled)) = [match_100 MatchCancelled]
   \<and> completeMatch (Some 3) (trio_db MatchCancelled) 100 3 = Inl Failed_to_fetch_match
   \<and> cancelMatch (Some 3) (trio_db MatchCancelled) 100 3 = Inl Failed_to_fetch_match
   \<and> (\<exists>s'. completeMatch (Some 1) (trio_db MatchCancelled) 100 1 = Inr s')
   \<and> (\<exists>s'. cancelMatch (Some 2) (trio_db MatchCancelled) 100 2 = Inr s')"
proof -
  have row: "filter (\<lambda>x. m_id x = 100) (matches (trio_db MatchCancelled))
             = [match_100 MatchCancelled]"
    by (simp add: store_defs)
  have party1: "\<exists>wr\<in>set (walk_requests (trio_db MatchCancelled)).
        (wr_id wr = m_request_1 (match_100 MatchCancelled)
         \<or> wr_id wr = m_request_2 (match_100 MatchCancelled))
        \<and> wr_user_id wr = 1"
    by (simp add: store_defs)
  have party2: "\<exists>wr\<in>set (walk_requests (trio_db MatchCancelled)).
        (wr_id wr = m_request_1 (match_100 MatchCancelled)
         \<or> wr_id wr = m_request_2 (match_100 MatchCancelled))
        \<and> wr_user_id wr = 2"
    by (simp add: store_defs)
  have party3: "\<not> (\<exists>wr\<in>set (walk_requests (trio_db MatchCancelled)).
        (wr_id wr = m_request_1 (match_100 MatchCancelled)
         \<or> wr_id wr = m_request_2 (match_100 MatchCancelled))
        \<and> wr_user_id wr = 3)"
    by (simp add: store_defs)
  note c = C10_match_services_in_callers_session [OF row]
  from c [of 3] party3
  have a: "completeMatch (Some 3) (trio_db MatchCancelled) 100 3 = Inl Failed_to_fetch_match"
    and b: "cancelMatch (Some 3) (trio_db MatchCancelled) 100 3 = Inl Failed_to_fetch_match"
    by blast+
  from c [of 1] party1
  have d: "\<exists>s'. completeMatch (Some 1) (trio_db MatchCancelled) 100 1 = Inr s'"
    by blast
  from c [of 2] party2
  have e: "\<exists>s'. cancelMatch (Some 2) (trio_db MatchCancelled) 100 2 = Inr s'"
    by blast
  from row a b d e show ?thesis by (intro conjI)
qed

text \<open>
  C10 as stated fails: user 3 owns neither request of match 100, and completeMatch and
  cancelMatch called by user 3 fail with "Failed to fetch match", not with Unauthorized.
\<close>

theorem C10_counterexample_non_party_cannot_fetch:
  "map match_summary (matches (trio_db Pending)) = [(10, 20, (0, 0), Pending)]
   \<and> map (\<lambda>wr. (wr_id wr, wr_user_id wr)) (walk_requests (trio_db Pending))
       = [(10, 1), (20, 2), (30, 3)]
   \<and> completeMatch (Some 3) (trio_db Pending) 100 3 = Inl Failed_to_fetch_match
   \<and> cancelMatch (Some 3) (trio_db Pending) 100 3 = Inl Failed_to_fetch_match"
  by (simp add: completeMatch_def cancelMatch_def single_def policy_defs store_defs
      match_summary_def)

section \<open>Calls for a request that is not waiting, and overlapping calls\<close>

text \<open>
  C4. Request 10 was cancelled. findMatch for it (the retry path) selects the waiting
  request 20, sets both rows to matched and inserts a match row that references
  request 10, which was not waiting when the match was created.
\<close>

theorem C4_findMatch_matches_cancelled_request:
  "map request_summary (walk_requests cancelled_db) = [(10, Cancelled, None), (20, Waiting, None)]
   \<and> (case findMatch cancelled_db 0 99 10 0 0 0 0 of
         Inl e \<Rightarrow> False
       | Inr (s', res) \<Rightarrow>
           res = Some 20
           \<and> map match_summary (matches s') = [(10, 20, (0, 0), Pending)]
           \<and> map request_summary (walk_requests s')
               = [(10, Matched, Some 2), (20, Matched, Some 1)])"
  by (simp add: findMatch_def matcher_defs store_defs calculate_distance_self
      match_summary_def request_summary_def)

text \<open>
  C3. Requests 10 and 20 both have request 30 as their only eligible candidate. When the
  candidate queries of the two calls both run before the writes, each call selects 30
  and each call's writes go through: request 30 ends up referenced by two match rows,
  and request 10 is matched with the owner of 30 while 30 is matched with the owner of 20.
\<close>

theorem C3_overlapping_calls_consume_candidate_twice:
  "(case interleaved_calls race_db 0 98 10 99 20 0 0 0 0 of
      Inl e \<Rightarrow> False
    | Inr (s2, res_1, res_2) \<Rightarrow>
        res_1 = Some 30 \<and> res_2 = Some 30
        \<and> map match_summary (matches s2)
            = [(10, 30, (0, 0), Pending), (20, 30, (0, 0), Pending)]
        \<and> map request_summary (walk_requests s2)
            = [(10, Matched, Some 3), (20, Matched, Some 3), (30, Matched, Some 2)])"
  by (simp add: interleaved_calls_def matcher_defs store_defs calculate_distance_self
      match_summary_def request_summary_def)

section \<open>findMatch\<close>










end
